theory Spec2Isabelle
  imports Complex_Main
begin

section \<open>Numbers\<close>

text \<open>
  The program is TypeScript; every \<^verbatim>\<open>number\<close> is an IEEE-754 binary64 value. The
  embedding of the frame loop reads a \<^verbatim>\<open>number\<close> as a \<^typ>\<open>real\<close> and an arithmetic
  operator as the exact operation: comparisons, \<^verbatim>\<open>Math.max\<close> and \<^verbatim>\<open>Math.min\<close> are
  exact in binary64 as well, and rounding only perturbs the computed values. NaN and the
  infinities are outside the model (the landmark source delivers finite coordinates).
  Where a statement depends on what the rounding does, the rounding is written out
  (section \<open>Binary64\<close>): in the particle simulation, whose ticks are counted, and in
  a second reading of the conversions between screen and world space.
\<close>

section \<open>Binary64\<close>

text \<open>
  The value of an arithmetic operation in binary64 is its exact value rounded to 53
  significant bits, to nearest and ties to even. \<open>ulpOf n r\<close> finds, in at most \<open>n\<close>
  doublings or halvings, the weight of the last of the 53 bits of a positive \<open>r\<close>; below
  2 to the -1022 the weight stays 2 to the -1074 (the subnormal numbers). Overflow to
  infinity is not modelled: the values here stay far below 2 to the 1024.
\<close>

definition roundEven :: "real \<Rightarrow> int" where
  "roundEven r =
     (let f = \<lfloor>r\<rfloor>
      in if r - of_int f < 1/2 then f
         else if 1/2 < r - of_int f then f + 1
         else if even f then f else f + 1)"

fun ulpOf :: "nat \<Rightarrow> real \<Rightarrow> real" where
  "ulpOf n r =
     (if n = 0 then 1
      else if r < 2 ^ 52 then ulpOf (n - 1) (2 * r) / 2
      else if 2 ^ 53 \<le> r then ulpOf (n - 1) (r / 2) * 2
      else 1)"

declare ulpOf.simps [simp del]

definition binary64 :: "real \<Rightarrow> real" where
  "binary64 r =
     (if r = 0 then 0
      else let u = max (ulpOf 2200 \<bar>r\<bar>) (1 / 2 ^ 1074)
           in of_int (roundEven (r / u)) * u)"

section \<open>Data model (types.ts)\<close>

text \<open>
  The record fields carry a prefix, since a field name is a global constant in HOL:
  \<^verbatim>\<open>Point.x\<close> is \<open>pt_x\<close>, \<^verbatim>\<open>Stroke.points\<close> is \<open>st_points\<close>,
  \<^verbatim>\<open>DrawingSettings.color\<close> is \<open>ds_color\<close>, \<^verbatim>\<open>Particle.life\<close> is \<open>pa_life\<close>.
\<close>

record Point =
  pt_x :: real
  pt_y :: real

datatype Tool = Pen | Eraser

record Stroke =
  st_points :: "Point list"
  st_color :: string
  st_size :: real
  st_type :: Tool

record DrawingSettings =
  ds_color :: string
  ds_size :: real
  ds_tool :: Tool

record Particle =
  pa_x :: real
  pa_y :: real
  pa_vx :: real
  pa_vy :: real
  pa_color :: string
  pa_size :: real
  pa_life :: real
  pa_maxLife :: real

datatype HandGesture =
  UNKNOWN | OPEN_PALM | PINCH | V_SIGN | CLOSED_FIST | TWO_FINGER_POINT

text \<open>
  A landmark of the pose estimator: normalized coordinates (its depth \<^verbatim>\<open>z\<close> is never
  read). \<^verbatim>\<open>results.landmarks\<close> is an array of hands, each an array of landmarks; it is
  \<open>None\<close> when the property is \<^verbatim>\<open>undefined\<close>.
\<close>

record Landmark =
  lm_x :: real
  lm_y :: real

type_synonym Hand = "Landmark list"
type_synonym Results = "Hand list option"

section \<open>Geometry (utils/geometry.ts)\<close>

definition distance :: "Point \<Rightarrow> Point \<Rightarrow> real" where
  "distance p1 p2 = sqrt ((pt_x p2 - pt_x p1)\<^sup>2 + (pt_y p2 - pt_y p1)\<^sup>2)"

definition lerp :: "real \<Rightarrow> real \<Rightarrow> real \<Rightarrow> real" where
  "lerp start end' t = start * (1 - t) + end' * t"

definition toScreen :: "real \<Rightarrow> real \<Rightarrow> real \<Rightarrow> real \<Rightarrow> Point" where
  "toScreen x y width height = \<lparr>pt_x = (1 - x) * width, pt_y = y * height\<rparr>"

definition midPoint :: "Point \<Rightarrow> Point \<Rightarrow> Point" where
  "midPoint p1 p2 = \<lparr>pt_x = (pt_x p1 + pt_x p2) / 2, pt_y = (pt_y p1 + pt_y p2) / 2\<rparr>"

section \<open>Application state (App component)\<close>

record Transform =
  scale :: real
  offsetX :: real
  offsetY :: real

text \<open>
  The React state (\<open>isMenuOpen\<close>, \<open>menuCursor\<close>, \<open>currentGesture\<close>) and the refs of the
  component. A frame reads the \<open>isMenuOpen\<close> of its closure, that is the value before the
  frame; \<^verbatim>\<open>setIsMenuOpen\<close> takes effect for the frames after it.
\<close>

record AppState =
  isMenuOpen :: bool
  menuCursor :: "Point option"
  currentGesture :: HandGesture
  linesRef :: "Stroke list"
  currentLineRef :: "Point list"
  particlesRef :: "Particle list"
  settingsRef :: DrawingSettings
  transformRef :: Transform
  prevPinchDistanceRef :: "real option"

definition initialState :: AppState where
  "initialState = \<lparr>
     isMenuOpen = False,
     menuCursor = None,
     currentGesture = UNKNOWN,
     linesRef = [],
     currentLineRef = [],
     particlesRef = [],
     settingsRef = \<lparr>ds_color = ''#00FFFF'', ds_size = 6, ds_tool = Pen\<rparr>,
     transformRef = \<lparr>scale = 1, offsetX = 0, offsetY = 0\<rparr>,
     prevPinchDistanceRef = None\<rparr>"

text \<open>
  Reading \<^verbatim>\<open>.x\<close> of a landmark that is not there (\<^verbatim>\<open>hand[8]\<close> of a shorter array)
  throws a \<^verbatim>\<open>TypeError\<close>; the exception leaves \<^verbatim>\<open>detect\<close> before the next frame is
  requested, so the frame loop ends there.
\<close>

datatype error = TypeError

section \<open>Dissolve (dissolveDrawing)\<close>

text \<open>
  \<^verbatim>\<open>Math.random()\<close> is a stream \<open>rnd\<close> of draws and a position in it. Each spawned
  particle takes three draws, in the order of the object literal: \<open>vx\<close>, \<open>vy\<close>, \<open>size\<close>.
  \<open>addParticlesFromPoints\<close> is the \<^verbatim>\<open>forEach\<close> over the points with its index \<open>i\<close>.
\<close>

definition newParticle :: "Transform \<Rightarrow> (nat \<Rightarrow> real) \<Rightarrow> nat \<Rightarrow> Point \<Rightarrow> string \<Rightarrow> real \<Rightarrow> Particle" where
  "newParticle T rnd k p color size' = \<lparr>
     pa_x = pt_x p * scale T + offsetX T,
     pa_y = pt_y p * scale T + offsetY T,
     pa_vx = (rnd k - 0.5) * 2,
     pa_vy = rnd (k + 1) * 2 + 1,
     pa_color = color,
     pa_size = rnd (k + 2) * size' + 1,
     pa_life = 1.0,
     pa_maxLife = 1.0\<rparr>"

fun addParticlesFrom :: "Transform \<Rightarrow> (nat \<Rightarrow> real) \<Rightarrow> string \<Rightarrow> real \<Rightarrow> nat \<Rightarrow> Point list \<Rightarrow> nat \<Rightarrow> Particle list \<times> nat" where
  "addParticlesFrom T rnd color size' i [] k = ([], k)"
| "addParticlesFrom T rnd color size' i (p # ps) k =
     (if i mod 2 = 0
      then (let (rest, k') = addParticlesFrom T rnd color size' (i + 1) ps (k + 3)
            in (newParticle T rnd k p color size' # rest, k'))
      else addParticlesFrom T rnd color size' (i + 1) ps k)"

definition addParticlesFromPoints :: "Transform \<Rightarrow> (nat \<Rightarrow> real) \<Rightarrow> Point list \<Rightarrow> string \<Rightarrow> real \<Rightarrow> nat \<Rightarrow> Particle list \<times> nat" where
  "addParticlesFromPoints T rnd points color size' k = addParticlesFrom T rnd color size' 0 points k"

text \<open>\<^verbatim>\<open>linesRef.current.forEach(line => addParticlesFromPoints(line.points, line.color, line.size))\<close>\<close>

fun addParticlesFromLines :: "Transform \<Rightarrow> (nat \<Rightarrow> real) \<Rightarrow> Stroke list \<Rightarrow> nat \<Rightarrow> Particle list \<times> nat" where
  "addParticlesFromLines T rnd [] k = ([], k)"
| "addParticlesFromLines T rnd (line # lines) k =
     (let (ps, k') = addParticlesFromPoints T rnd (st_points line) (st_color line) (st_size line) k;
          (rest, k'') = addParticlesFromLines T rnd lines k'
      in (ps @ rest, k''))"

definition newParticles :: "(nat \<Rightarrow> real) \<Rightarrow> AppState \<Rightarrow> Particle list" where
  "newParticles rnd s =
     (let T = transformRef s;
          (fromLines, k) = addParticlesFromLines T rnd (linesRef s) 0;
          (fromCurrent, k') = addParticlesFromPoints T rnd (currentLineRef s)
                                (ds_color (settingsRef s)) (ds_size (settingsRef s)) k
      in fromLines @ fromCurrent)"

definition dissolveDrawing :: "(nat \<Rightarrow> real) \<Rightarrow> AppState \<Rightarrow> AppState" where
  "dissolveDrawing rnd s =
     (if linesRef s = [] \<and> currentLineRef s = [] then s
      else s\<lparr>particlesRef := particlesRef s @ newParticles rnd s,
             linesRef := [],
             currentLineRef := []\<rparr>)"

section \<open>Frame logic (processHands)\<close>

text \<open>The screen position of landmark \<open>i\<close> of a hand: \<^verbatim>\<open>toScreen(hand[i].x, hand[i].y, width, height)\<close>.\<close>

definition tip :: "Hand \<Rightarrow> nat \<Rightarrow> real \<Rightarrow> real \<Rightarrow> Point" where
  "tip hand i width height = toScreen (lm_x (hand ! i)) (lm_y (hand ! i)) width height"

text \<open>The locals of the single-hand branch (source lines 140 to 151).\<close>

definition pinchDist :: "Hand \<Rightarrow> real \<Rightarrow> real \<Rightarrow> real" where
  "pinchDist hand width height = distance (tip hand 4 width height) (tip hand 8 width height)"

definition extended :: "nat \<Rightarrow> Hand \<Rightarrow> real \<Rightarrow> real \<Rightarrow> bool" where
  "extended i hand width height \<longleftrightarrow>
     distance (tip hand 0 width height) (tip hand i width height)
       > distance (tip hand 0 width height) (tip hand 8 width height) * 0.8"

abbreviation middleExtended :: "Hand \<Rightarrow> real \<Rightarrow> real \<Rightarrow> bool" where
  "middleExtended \<equiv> extended 12"

abbreviation ringExtended :: "Hand \<Rightarrow> real \<Rightarrow> real \<Rightarrow> bool" where
  "ringExtended \<equiv> extended 16"

abbreviation pinkyExtended :: "Hand \<Rightarrow> real \<Rightarrow> real \<Rightarrow> bool" where
  "pinkyExtended \<equiv> extended 20"

text \<open>Gesture classification of one hand (source lines 155 to 166): the first rule that matches.\<close>

definition detectGesture :: "Hand \<Rightarrow> real \<Rightarrow> real \<Rightarrow> HandGesture" where
  "detectGesture hand width height =
     (if pinchDist hand width height < 40 \<and> \<not> middleExtended hand width height then PINCH
      else if middleExtended hand width height \<and> ringExtended hand width height
              \<and> pinkyExtended hand width height
              \<and> distance (tip hand 0 width height) (tip hand 8 width height) > 100 then OPEN_PALM
      else if distance (tip hand 8 width height) (tip hand 12 width height) > 40
              \<and> \<not> ringExtended hand width height \<and> \<not> pinkyExtended hand width height then V_SIGN
      else UNKNOWN)"

text \<open>
  Screen space to world space, as the pinch does it (source lines 203 to 206), and world
  space to screen space, as the dissolve and the cursor indicator do it (source lines 241,
  242, 340 and 341); \<open>toWorld\<close> and \<open>toScreen\<close> of the view transform in the specification.
\<close>

definition screenToWorld :: "Transform \<Rightarrow> Point \<Rightarrow> Point" where
  "screenToWorld T p = \<lparr>pt_x = (pt_x p - offsetX T) / scale T,
                         pt_y = (pt_y p - offsetY T) / scale T\<rparr>"

definition worldToScreen :: "Transform \<Rightarrow> Point \<Rightarrow> Point" where
  "worldToScreen T p = \<lparr>pt_x = pt_x p * scale T + offsetX T,
                         pt_y = pt_y p * scale T + offsetY T\<rparr>"

text \<open>The same two conversions with the rounding of each operation written out.\<close>

definition screenToWorld64 :: "Transform \<Rightarrow> Point \<Rightarrow> Point" where
  "screenToWorld64 T p = \<lparr>pt_x = binary64 (binary64 (pt_x p - offsetX T) / scale T),
                           pt_y = binary64 (binary64 (pt_y p - offsetY T) / scale T)\<rparr>"

definition worldToScreen64 :: "Transform \<Rightarrow> Point \<Rightarrow> Point" where
  "worldToScreen64 T p = \<lparr>pt_x = binary64 (binary64 (pt_x p * scale T) + offsetX T),
                           pt_y = binary64 (binary64 (pt_y p * scale T) + offsetY T)\<rparr>"

text \<open>The point pushed on a pinch: the midpoint of thumb tip and index tip in world space.\<close>

definition worldPoint :: "Transform \<Rightarrow> Hand \<Rightarrow> real \<Rightarrow> real \<Rightarrow> Point" where
  "worldPoint T hand width height =
     screenToWorld T (midPoint (tip hand 4 width height) (tip hand 8 width height))"

text \<open>
  "If not pinching, finish line" (source lines 211 to 217): the current line becomes a
  stroke with the current color, size and tool, and a new current line starts.
\<close>

definition finishLine :: "AppState \<Rightarrow> AppState" where
  "finishLine s =
     s\<lparr>linesRef := linesRef s @
                [\<lparr>st_points = currentLineRef s,
                  st_color = ds_color (settingsRef s),
                  st_size = ds_size (settingsRef s),
                  st_type = ds_tool (settingsRef s)\<rparr>],
       currentLineRef := []\<rparr>"

text \<open>
  The two-hand branch (source lines 118 to 134). Both index tips are read before anything
  is written, so a hand with no landmark 8 throws with the state untouched.
\<close>

definition twoHands :: "Hand \<Rightarrow> Hand \<Rightarrow> real \<Rightarrow> real \<Rightarrow> AppState \<Rightarrow> error + HandGesture \<times> AppState" where
  "twoHands h0 h1 width height s =
     (if length h0 \<le> 8 \<or> length h1 \<le> 8 then Inl TypeError
      else
        let hand1Index = tip h0 8 width height;
            hand2Index = tip h1 8 width height;
            dist = distance hand1Index hand2Index;
            s1 = (case prevPinchDistanceRef s of
                    None \<Rightarrow> s
                  | Some prev \<Rightarrow>
                      let delta = dist - prev;
                          zoomSpeed = 0.005;
                          newScale = max 0.5 (min 3 (scale (transformRef s) + delta * zoomSpeed))
                      in s\<lparr>transformRef := (transformRef s)\<lparr>scale := newScale\<rparr>\<rparr>)
        in Inr (TWO_FINGER_POINT, s1\<lparr>prevPinchDistanceRef := Some dist\<rparr>))"

text \<open>
  The single-hand branch (source lines 136 to 224). It reads the landmarks 4, 8, 12, 16, 20
  and 0 before it does anything but clear the previous distance, so a hand of fewer than
  21 landmarks throws. \<open>menuOpen\<close> is the \<open>isMenuOpen\<close> of the closure.
\<close>

definition oneHand :: "Hand \<Rightarrow> real \<Rightarrow> real \<Rightarrow> (nat \<Rightarrow> real) \<Rightarrow> AppState \<Rightarrow> error + HandGesture \<times> AppState" where
  "oneHand hand width height rnd s =
     (if length hand \<le> 20 then Inl TypeError
      else
        let menuOpen = isMenuOpen s;
            s0 = s\<lparr>prevPinchDistanceRef := None\<rparr>;
            detectedGesture = detectGesture hand width height;
            s1 = s0\<lparr>currentGesture := detectedGesture\<rparr>;
            s2 = (if detectedGesture = OPEN_PALM \<and> \<not> menuOpen then s1\<lparr>isMenuOpen := True\<rparr> else s1);
            s3 = (if menuOpen then s2\<lparr>menuCursor := Some (tip hand 8 width height)\<rparr>
                  else if detectedGesture = PINCH
                  then s2\<lparr>currentLineRef := currentLineRef s2 @ [worldPoint (transformRef s2) hand width height]\<rparr>
                  else if currentLineRef s2 \<noteq> [] then finishLine s2
                  else s2);
            s4 = (if detectedGesture = V_SIGN then dissolveDrawing rnd s3 else s3)
        in Inr (detectedGesture, s4))"

text \<open>
  One call of \<^verbatim>\<open>processHands\<close>: the state after the frame and the local
  \<^verbatim>\<open>detectedGesture\<close> it ended with. With no hand (or no landmark array) only the menu
  cursor is reset.
\<close>

definition processHands :: "Results \<Rightarrow> real \<Rightarrow> real \<Rightarrow> (nat \<Rightarrow> real) \<Rightarrow> AppState \<Rightarrow> error + HandGesture \<times> AppState" where
  "processHands results width height rnd s =
     (let s0 = s\<lparr>menuCursor := None\<rparr>
      in case results of
           None \<Rightarrow> Inr (UNKNOWN, s0)
         | Some landmarks \<Rightarrow>
             if length landmarks > 0 then
               (if length landmarks = 2
                then twoHands (landmarks ! 0) (landmarks ! 1) width height s0
                else oneHand (landmarks ! 0) width height rnd s0)
             else Inr (UNKNOWN, s0))"

section \<open>Particle simulation (renderCanvas)\<close>

text \<open>
  The body of the \<^verbatim>\<open>forEach\<close> over the particles, in the order of its statements: the
  position moves by the velocity of before the tick, then life and \<open>vy\<close> change. The
  arithmetic is binary64: the literals 0.01 and 0.05 are the doubles nearest to them, and
  each sum and difference is rounded.
\<close>

definition tickParticle :: "Particle \<Rightarrow> Particle" where
  "tickParticle p = p\<lparr>pa_x := binary64 (pa_x p + pa_vx p),
                       pa_y := binary64 (pa_y p + pa_vy p),
                       pa_life := binary64 (pa_life p - binary64 0.01),
                       pa_vy := binary64 (pa_vy p + binary64 0.05)\<rparr>"

definition tickParticles :: "Particle list \<Rightarrow> Particle list" where
  "tickParticles ps = (if ps \<noteq> [] then filter (\<lambda>p. pa_life p > 0) (map tickParticle ps) else ps)"

text \<open>
  The life of a particle spawned with life 1.0 after \<open>n\<close> ticks, and a check that runs
  the countdown: from a life \<open>x\<close> that came after \<open>prev\<close>, the life goes down in every
  tick, stays positive for \<open>n\<close> more ticks and is then at most 0; the check returns
  that last life.
\<close>

fun life64 :: "nat \<Rightarrow> real" where
  "life64 0 = 1"
| "life64 (Suc n) = binary64 (life64 n - binary64 0.01)"

fun countdown :: "nat \<Rightarrow> real \<Rightarrow> real \<Rightarrow> real option" where
  "countdown n prev x =
     (if x < prev then
        (if n = 0 then (if x \<le> 0 then Some x else None)
         else if 0 < x then countdown (n - 1) x (binary64 (x - binary64 0.01))
         else None)
      else None)"

declare life64.simps [simp del] countdown.simps [simp del]

text \<open>A particle as the dissolve of the sketch spawns it.\<close>

definition flake :: Particle where
  "flake = \<lparr>pa_x = 510, pa_y = 500, pa_vx = - 1, pa_vy = 1, pa_color = ''#00FFFF'',
             pa_size = 1, pa_life = 1, pa_maxLife = 1\<rparr>"

text \<open>
  \<^verbatim>\<open>renderCanvas\<close> returns at once when one of the two drawing contexts is missing
  (\<open>haveCtx\<close> false). What it paints is output only; of the state it changes the particles.
\<close>

definition renderCanvas :: "bool \<Rightarrow> AppState \<Rightarrow> AppState" where
  "renderCanvas haveCtx s =
     (if \<not> haveCtx then s else s\<lparr>particlesRef := tickParticles (particlesRef s)\<rparr>)"

section \<open>Menu callbacks and the frame loop\<close>

text \<open>\<^verbatim>\<open>Partial<DrawingSettings>\<close>: each field present or absent.\<close>

record SettingsUpdate =
  up_color :: "string option"
  up_size :: "real option"
  up_tool :: "Tool option"

definition handleMenuSelect :: "SettingsUpdate \<Rightarrow> AppState \<Rightarrow> AppState" where
  "handleMenuSelect updates s =
     s\<lparr>settingsRef :=
         \<lparr>ds_color = (case up_color updates of None \<Rightarrow> ds_color (settingsRef s) | Some c \<Rightarrow> c),
          ds_size = (case up_size updates of None \<Rightarrow> ds_size (settingsRef s) | Some z \<Rightarrow> z),
          ds_tool = (case up_tool updates of None \<Rightarrow> ds_tool (settingsRef s) | Some t \<Rightarrow> t)\<rparr>\<rparr>"

text \<open>The \<^verbatim>\<open>onClose\<close> passed to the menu: \<^verbatim>\<open>() => setIsMenuOpen(false)\<close>.\<close>

definition onClose :: "AppState \<Rightarrow> AppState" where
  "onClose s = s\<lparr>isMenuOpen := False\<rparr>"

text \<open>
  One pass of \<^verbatim>\<open>detect\<close> with the video ready: \<^verbatim>\<open>processHands\<close>, then
  \<^verbatim>\<open>renderCanvas\<close>.
\<close>

definition detect :: "Results \<Rightarrow> real \<Rightarrow> real \<Rightarrow> (nat \<Rightarrow> real) \<Rightarrow> bool \<Rightarrow> AppState \<Rightarrow> error + AppState" where
  "detect results width height rnd haveCtx s =
     (case processHands results width height rnd s of
        Inl e \<Rightarrow> Inl e
      | Inr (g, s') \<Rightarrow> Inr (renderCanvas haveCtx s'))"

text \<open>
  What can happen to the component: a frame of the detection loop, a selection reported
  by the menu, the menu's close action.
\<close>

datatype Event =
  Frame Results real real "nat \<Rightarrow> real" bool
  | Select SettingsUpdate
  | Close

fun step :: "Event \<Rightarrow> AppState \<Rightarrow> error + AppState" where
  "step (Frame results width height rnd haveCtx) s = detect results width height rnd haveCtx s"
| "step (Select updates) s = Inr (handleMenuSelect updates s)"
| "step Close s = Inr (onClose s)"

fun run :: "Event list \<Rightarrow> AppState \<Rightarrow> error + AppState" where
  "run [] s = Inr s"
| "run (e # es) s = (case step e s of Inl err \<Rightarrow> Inl err | Inr s' \<Rightarrow> run es s')"

section \<open>Sample inputs\<close>

text \<open>A hand of 21 landmarks given by their positions, and one with every landmark at a single point.\<close>

definition handOf :: "(nat \<Rightarrow> real \<times> real) \<Rightarrow> Hand" where
  "handOf f = map (\<lambda>i. \<lparr>lm_x = fst (f i), lm_y = snd (f i)\<rparr>) [0..<21]"

definition handAt :: "real \<Rightarrow> real \<Rightarrow> Hand" where
  "handAt a b = handOf (\<lambda>i. (a, b))"

text \<open>
  Hands on a 1000 by 1000 frame, all landmarks on the vertical line through x = 500 but
  the thumb tip of the pinch. The wrist is at (500, 900).
  \<^item> \<open>pinchHandAt v\<close>: thumb tip at (520, 1000 v), index tip at (500, 1000 v), the other tips
    at (500, 800), 100 px from the wrist.
  \<^item> \<open>palmHand\<close>: index, middle, ring and pinky tips at (500, 500); thumb tip at the wrist.
  \<^item> \<open>vHand\<close>: index tip at (500, 500), middle tip at (500, 400), the others at (500, 800).
  \<^item> \<open>restHand\<close>: index and ring tips at (500, 500), the others at (500, 800).
\<close>

definition pinchHandAt :: "real \<Rightarrow> Hand" where
  "pinchHandAt v = handOf (\<lambda>i. if i = 0 then (0.5, 0.9) else if i = 4 then (0.48, v)
                               else if i = 8 then (0.5, v) else (0.5, 0.8))"

definition palmHand :: Hand where
  "palmHand = handOf (\<lambda>i. if i = 0 \<or> i = 4 then (0.5, 0.9) else (0.5, 0.5))"

definition vHand :: Hand where
  "vHand = handOf (\<lambda>i. if i = 0 then (0.5, 0.9) else if i = 8 then (0.5, 0.5)
                        else if i = 12 then (0.5, 0.4) else (0.5, 0.8))"

definition restHand :: Hand where
  "restHand = handOf (\<lambda>i. if i = 0 then (0.5, 0.9) else if i = 8 \<or> i = 16 then (0.5, 0.5)
                           else (0.5, 0.8))"

text \<open>
  Frames of that size with the drawing contexts present and every random draw 0: one
  hand; two hands whose index tips are \<open>d\<close> px apart; no hand.
\<close>

definition zeroDraws :: "nat \<Rightarrow> real" where
  "zeroDraws n = 0"

definition handFrame :: "Hand \<Rightarrow> Event" where
  "handFrame hand = Frame (Some [hand]) 1000 1000 zeroDraws True"

definition zoomFrame :: "real \<Rightarrow> Event" where
  "zoomFrame d = Frame (Some [handAt 1 0, handAt (1 - d / 1000) 0]) 1000 1000 zeroDraws True"

definition noHands :: Event where
  "noHands = Frame (Some []) 1000 1000 zeroDraws True"

text \<open>
  The state after three pinch frames, a frame with no gesture and one more pinch frame:
  one stroke of three points and a current line of one point.
\<close>

definition sketch :: AppState where
  "sketch = \<lparr>
     isMenuOpen = False,
     menuCursor = None,
     currentGesture = PINCH,
     linesRef = [\<lparr>st_points = [\<lparr>pt_x = 510, pt_y = 500\<rparr>, \<lparr>pt_x = 510, pt_y = 400\<rparr>,
                                \<lparr>pt_x = 510, pt_y = 300\<rparr>],
                   st_color = ''#00FFFF'', st_size = 6, st_type = Pen\<rparr>],
     currentLineRef = [\<lparr>pt_x = 510, pt_y = 500\<rparr>],
     particlesRef = [],
     settingsRef = \<lparr>ds_color = ''#00FFFF'', ds_size = 6, ds_tool = Pen\<rparr>,
     transformRef = \<lparr>scale = 1, offsetX = 0, offsetY = 0\<rparr>,
     prevPinchDistanceRef = None\<rparr>"

text \<open>
  The view transform after zooming in as far as it goes, and two points whose coordinates
  are the doubles nearest to 0.9 and to 0.1.
\<close>

definition tripled :: Transform where
  "tripled = \<lparr>scale = 3, offsetX = 0, offsetY = 0\<rparr>"

definition nineTenths :: Point where
  "nineTenths = \<lparr>pt_x = 8106479329266893 / 9007199254740992,
                 pt_y = 8106479329266893 / 9007199254740992\<rparr>"

definition oneTenth :: Point where
  "oneTenth = \<lparr>pt_x = 3602879701896397 / 36028797018963968,
               pt_y = 3602879701896397 / 36028797018963968\<rparr>"

section \<open>Vocabulary of the statements\<close>

text \<open>Every second element of a list, by index: the elements at 0, 2, 4, ...\<close>

fun everySecond :: "'a list \<Rightarrow> 'a list" where
  "everySecond [] = []"
| "everySecond [p] = [p]"
| "everySecond (p # q # ps) = p # everySecond ps"

text \<open>Where a particle is on screen.\<close>

definition position :: "Particle \<Rightarrow> Point" where
  "position q = \<lparr>pt_x = pa_x q, pt_y = pa_y q\<rparr>"

text \<open>
  The points a dissolve samples: every second point of each finalized stroke, then every
  second point of the active stroke, the count starting anew in each of them.
\<close>

definition sampledPoints :: "AppState \<Rightarrow> Point list" where
  "sampledPoints s = concat (map everySecond (map st_points (linesRef s) @ [currentLineRef s]))"

text \<open>All points of all finalized strokes and of the active stroke, counted.\<close>

definition totalPoints :: "AppState \<Rightarrow> nat" where
  "totalPoints s =
     sum_list (map (\<lambda>line. length (st_points line)) (linesRef s)) + length (currentLineRef s)"

text \<open>A particle as a dissolve leaves it: velocities in range and full life.\<close>

definition wellSpawned :: "Particle \<Rightarrow> bool" where
  "wellSpawned q \<longleftrightarrow>
     - 1 \<le> pa_vx q \<and> pa_vx q \<le> 1 \<and> 1 \<le> pa_vy q \<and> pa_vy q \<le> 3 \<and> pa_life q = 1"

section \<open>Dwell selection (components/SciFiMenu.tsx)\<close>

text \<open>
  An element with \<^verbatim>\<open>data-menu-item\<close>: its bounding rectangle and its \<^verbatim>\<open>data-type\<close> and
  \<^verbatim>\<open>data-value\<close> attributes.
\<close>

record MenuItem =
  mi_left :: real
  mi_right :: real
  mi_top :: real
  mi_bottom :: real
  mi_type :: string
  mi_value :: string

text \<open>
  A call of \<^verbatim>\<open>onSelect\<close> by the dwell callback: \<^verbatim>\<open>{color: value, tool: 'pen'}\<close>,
  \<^verbatim>\<open>{size: Number(value)}\<close> or \<^verbatim>\<open>{tool: value}\<close>, with the attribute value as it stands.
\<close>

datatype Selection = SelectColor string | SelectSize string | SelectTool string

text \<open>
  A pending timeout: its handle, the time in ms at which it is due, and the \<open>type\<close> and
  \<open>value\<close> its callback has captured. The hover classes and the 200 ms pulse of the
  callback are presentation and not part of the state.
\<close>

record Timer =
  tm_id :: nat
  tm_due :: nat
  tm_type :: string
  tm_value :: string

text \<open>
  The refs of the menu, the timeouts it has pending, the clock, and the calls of
  \<^verbatim>\<open>onSelect\<close> so far, each with the time of the call. Handles count from 1, as the
  browser's do, so a stored handle is truthy.
\<close>

record MenuState =
  hoverTimerRef :: "nat option"
  hoveredElementRef :: "string option"
  timers :: "Timer list"
  nextTimerId :: nat
  now :: nat
  selections :: "(nat \<times> Selection) list"

definition menuInit :: MenuState where
  "menuInit = \<lparr>hoverTimerRef = None, hoveredElementRef = None, timers = [],
               nextTimerId = 1, now = 0, selections = []\<rparr>"

definition inside :: "Point \<Rightarrow> MenuItem \<Rightarrow> bool" where
  "inside cursorPos el \<longleftrightarrow>
     pt_x cursorPos \<ge> mi_left el \<and> pt_x cursorPos \<le> mi_right el
     \<and> pt_y cursorPos \<ge> mi_top el \<and> pt_y cursorPos \<le> mi_bottom el"

definition clearTimeout :: "nat \<Rightarrow> Timer list \<Rightarrow> Timer list" where
  "clearTimeout h ts = filter (\<lambda>t. tm_id t \<noteq> h) ts"

text \<open>\<^verbatim>\<open>if (hoverTimerRef.current) clearTimeout(hoverTimerRef.current)\<close>\<close>

definition clearHoverTimer :: "MenuState \<Rightarrow> MenuState" where
  "clearHoverTimer m =
     (case hoverTimerRef m of None \<Rightarrow> m | Some h \<Rightarrow> m\<lparr>timers := clearTimeout h (timers m)\<rparr>)"

text \<open>\<^verbatim>\<open>hoverTimerRef.current = setTimeout(callback, 800)\<close> for the element \<open>el\<close>.\<close>

definition setHoverTimer :: "MenuItem \<Rightarrow> MenuState \<Rightarrow> MenuState" where
  "setHoverTimer el m =
     m\<lparr>hoverTimerRef := Some (nextTimerId m),
       timers := timers m @ [\<lparr>tm_id = nextTimerId m, tm_due = now m + 800,
                              tm_type = mi_type el, tm_value = mi_value el\<rparr>],
       nextTimerId := nextTimerId m + 1\<rparr>"

text \<open>The \<^verbatim>\<open>forEach\<close> over the elements (source lines 28 to 64), with the flag \<open>foundHover\<close>.\<close>

fun hitTest :: "Point \<Rightarrow> MenuItem list \<Rightarrow> MenuState \<Rightarrow> bool \<Rightarrow> MenuState \<times> bool" where
  "hitTest cursorPos [] m foundHover = (m, foundHover)"
| "hitTest cursorPos (el # els) m foundHover =
     (if inside cursorPos el
      then (if hoveredElementRef m \<noteq> Some (mi_type el @ ''-'' @ mi_value el)
            then hitTest cursorPos els
                   (setHoverTimer el
                      (clearHoverTimer (m\<lparr>hoveredElementRef := Some (mi_type el @ ''-'' @ mi_value el)\<rparr>)))
                   True
            else hitTest cursorPos els m True)
      else hitTest cursorPos els m foundHover)"

text \<open>
  The effect on \<open>cursorPos\<close>, \<open>isOpen\<close> and \<open>onSelect\<close> (source lines 22 to 71).
  \<^verbatim>\<open>menuRef.current\<close> is set exactly when the menu is rendered open, so its test adds
  nothing to the one of \<open>isOpen\<close>. The effect has no cleanup function.
\<close>

definition hoverEffect :: "MenuItem list \<Rightarrow> bool \<Rightarrow> Point option \<Rightarrow> MenuState \<Rightarrow> MenuState" where
  "hoverEffect elements isOpen cursorPos m =
     (if isOpen then
        (case cursorPos of
           None \<Rightarrow> m
         | Some c \<Rightarrow>
             (case hitTest c elements m False of
                (m', foundHover) \<Rightarrow>
                  if foundHover then m'
                  else clearHoverTimer (m'\<lparr>hoveredElementRef := None\<rparr>)))
      else m)"

text \<open>The dwell callback (source lines 50 to 59): three tests of the captured type, one after the other.\<close>

definition fire :: "Timer \<Rightarrow> (nat \<times> Selection) list" where
  "fire t =
     (if tm_type t = ''color'' then [(tm_due t, SelectColor (tm_value t))] else [])
     @ (if tm_type t = ''size'' then [(tm_due t, SelectSize (tm_value t))] else [])
     @ (if tm_type t = ''tool'' then [(tm_due t, SelectTool (tm_value t))] else [])"

text \<open>
  \<open>dt\<close> ms pass with no render of the menu: the timeouts due by then run and are gone.
  A timeout runs at the time it is due (the event loop is taken to be idle).
\<close>

definition elapse :: "nat \<Rightarrow> MenuState \<Rightarrow> MenuState" where
  "elapse dt m =
     m\<lparr>now := now m + dt,
       timers := filter (\<lambda>t. now m + dt < tm_due t) (timers m),
       selections := selections m @ concat (map fire (filter (\<lambda>t. tm_due t \<le> now m + dt) (timers m)))\<rparr>"

text \<open>The life of a mounted menu: renders with new props, which run the effect, and time passing between them.\<close>

datatype MenuEvent = Render bool "Point option" | Elapse nat

fun menuStep :: "MenuItem list \<Rightarrow> MenuEvent \<Rightarrow> MenuState \<Rightarrow> MenuState" where
  "menuStep elements (Render isOpen cursorPos) m = hoverEffect elements isOpen cursorPos m"
| "menuStep elements (Elapse dt) m = elapse dt m"

fun menuRun :: "MenuItem list \<Rightarrow> MenuEvent list \<Rightarrow> MenuState \<Rightarrow> MenuState" where
  "menuRun elements [] m = m"
| "menuRun elements (e # es) m = menuRun elements es (menuStep elements e m)"

text \<open>
  Two regions next to each other, the pen and the eraser button, and three cursor
  positions: on the pen, on the eraser, on neither.
\<close>

definition sampleMenu :: "MenuItem list" where
  "sampleMenu =
     [\<lparr>mi_left = 0, mi_right = 100, mi_top = 0, mi_bottom = 100, mi_type = ''tool'', mi_value = ''pen''\<rparr>,
      \<lparr>mi_left = 200, mi_right = 300, mi_top = 0, mi_bottom = 100, mi_type = ''tool'', mi_value = ''eraser''\<rparr>]"

definition onPen :: "Point option" where
  "onPen = Some \<lparr>pt_x = 50, pt_y = 50\<rparr>"

definition onEraser :: "Point option" where
  "onEraser = Some \<lparr>pt_x = 250, pt_y = 50\<rparr>"

definition offMenu :: "Point option" where
  "offMenu = Some \<lparr>pt_x = 150, pt_y = 50\<rparr>"

section \<open>Evaluating the sample inputs\<close>

lemma length_handOf [simp]: "length (handOf f) = 21"
  by (simp add: handOf_def)

lemma nth_handOf [simp]: "i < 21 \<Longrightarrow> handOf f ! i = \<lparr>lm_x = fst (f i), lm_y = snd (f i)\<rparr>"
  unfolding handOf_def by (simp only: nth_map_upt length_upt length_map minus_nat.diff_0 add_0)

lemma tip_handOf: "i < 21 \<Longrightarrow> tip (handOf f) i w h = \<lparr>pt_x = (1 - fst (f i)) * w, pt_y = snd (f i) * h\<rparr>"
  by (simp add: tip_def toScreen_def)

lemma length_handAt [simp]: "length (handAt a b) = 21"
  by (simp add: handAt_def)

lemma tip_handAt: "i < 21 \<Longrightarrow> tip (handAt a b) i w h = \<lparr>pt_x = (1 - a) * w, pt_y = b * h\<rparr>"
  by (simp add: handAt_def tip_handOf)

lemma distance_same_x: "distance \<lparr>pt_x = a, pt_y = b\<rparr> \<lparr>pt_x = a, pt_y = c\<rparr> = \<bar>c - b\<bar>"
  by (simp add: distance_def)

lemma distance_same_y: "distance \<lparr>pt_x = a, pt_y = c\<rparr> \<lparr>pt_x = b, pt_y = c\<rparr> = \<bar>b - a\<bar>"
  by (simp add: distance_def)

lemma length_sample_hands [simp]:
  "length (pinchHandAt v) = 21" "length palmHand = 21" "length vHand = 21" "length restHand = 21"
  by (simp_all add: pinchHandAt_def palmHand_def vHand_def restHand_def)

lemma pinchHandAt_tips:
  "tip (pinchHandAt v) 0 1000 1000 = \<lparr>pt_x = 500, pt_y = 900\<rparr>"
  "tip (pinchHandAt v) 4 1000 1000 = \<lparr>pt_x = 520, pt_y = v * 1000\<rparr>"
  "tip (pinchHandAt v) 8 1000 1000 = \<lparr>pt_x = 500, pt_y = v * 1000\<rparr>"
  "tip (pinchHandAt v) 12 1000 1000 = \<lparr>pt_x = 500, pt_y = 800\<rparr>"
  "tip (pinchHandAt v) 16 1000 1000 = \<lparr>pt_x = 500, pt_y = 800\<rparr>"
  "tip (pinchHandAt v) 20 1000 1000 = \<lparr>pt_x = 500, pt_y = 800\<rparr>"
  by (simp_all add: pinchHandAt_def tip_handOf)

lemma palmHand_tips:
  "tip palmHand 0 1000 1000 = \<lparr>pt_x = 500, pt_y = 900\<rparr>"
  "tip palmHand 4 1000 1000 = \<lparr>pt_x = 500, pt_y = 900\<rparr>"
  "tip palmHand 8 1000 1000 = \<lparr>pt_x = 500, pt_y = 500\<rparr>"
  "tip palmHand 12 1000 1000 = \<lparr>pt_x = 500, pt_y = 500\<rparr>"
  "tip palmHand 16 1000 1000 = \<lparr>pt_x = 500, pt_y = 500\<rparr>"
  "tip palmHand 20 1000 1000 = \<lparr>pt_x = 500, pt_y = 500\<rparr>"
  by (simp_all add: palmHand_def tip_handOf)

lemma vHand_tips:
  "tip vHand 0 1000 1000 = \<lparr>pt_x = 500, pt_y = 900\<rparr>"
  "tip vHand 4 1000 1000 = \<lparr>pt_x = 500, pt_y = 800\<rparr>"
  "tip vHand 8 1000 1000 = \<lparr>pt_x = 500, pt_y = 500\<rparr>"
  "tip vHand 12 1000 1000 = \<lparr>pt_x = 500, pt_y = 400\<rparr>"
  "tip vHand 16 1000 1000 = \<lparr>pt_x = 500, pt_y = 800\<rparr>"
  "tip vHand 20 1000 1000 = \<lparr>pt_x = 500, pt_y = 800\<rparr>"
  by (simp_all add: vHand_def tip_handOf)

lemma restHand_tips:
  "tip restHand 0 1000 1000 = \<lparr>pt_x = 500, pt_y = 900\<rparr>"
  "tip restHand 4 1000 1000 = \<lparr>pt_x = 500, pt_y = 800\<rparr>"
  "tip restHand 8 1000 1000 = \<lparr>pt_x = 500, pt_y = 500\<rparr>"
  "tip restHand 12 1000 1000 = \<lparr>pt_x = 500, pt_y = 800\<rparr>"
  "tip restHand 16 1000 1000 = \<lparr>pt_x = 500, pt_y = 500\<rparr>"
  "tip restHand 20 1000 1000 = \<lparr>pt_x = 500, pt_y = 800\<rparr>"
  by (simp_all add: restHand_def tip_handOf)

lemma detectGesture_pinchHandAt:
  assumes "\<bar>900 - v * 1000\<bar> \<ge> 125"
  shows "detectGesture (pinchHandAt v) 1000 1000 = PINCH"
proof -
  have "pinchDist (pinchHandAt v) 1000 1000 = 20"
    by (simp add: pinchDist_def pinchHandAt_tips distance_same_y)
  moreover have "\<not> middleExtended (pinchHandAt v) 1000 1000"
    using assms by (simp add: extended_def pinchHandAt_tips distance_same_x abs_minus_commute)
  ultimately show ?thesis by (simp add: detectGesture_def)
qed

lemma detectGesture_palmHand: "detectGesture palmHand 1000 1000 = OPEN_PALM"
  by (simp add: detectGesture_def pinchDist_def extended_def palmHand_tips distance_same_x)

lemma detectGesture_vHand: "detectGesture vHand 1000 1000 = V_SIGN"
  by (simp add: detectGesture_def pinchDist_def extended_def vHand_tips distance_same_x)

lemma detectGesture_restHand: "detectGesture restHand 1000 1000 = UNKNOWN"
  by (simp add: detectGesture_def pinchDist_def extended_def restHand_tips distance_same_x)

lemma worldPoint_pinchHandAt:
  "worldPoint \<lparr>scale = 1, offsetX = 0, offsetY = 0\<rparr> (pinchHandAt v) 1000 1000
     = \<lparr>pt_x = 510, pt_y = v * 1000\<rparr>"
  by (simp add: worldPoint_def screenToWorld_def midPoint_def pinchHandAt_tips)

section \<open>What a frame changes\<close>

lemma dissolveDrawing_keeps [simp]:
  "isMenuOpen (dissolveDrawing rnd s) = isMenuOpen s"
  "transformRef (dissolveDrawing rnd s) = transformRef s"
  "prevPinchDistanceRef (dissolveDrawing rnd s) = prevPinchDistanceRef s"
  "settingsRef (dissolveDrawing rnd s) = settingsRef s"
  "currentGesture (dissolveDrawing rnd s) = currentGesture s"
  "menuCursor (dissolveDrawing rnd s) = menuCursor s"
  by (simp_all add: dissolveDrawing_def)

lemma renderCanvas_keeps [simp]:
  "isMenuOpen (renderCanvas c s) = isMenuOpen s"
  "transformRef (renderCanvas c s) = transformRef s"
  "prevPinchDistanceRef (renderCanvas c s) = prevPinchDistanceRef s"
  "linesRef (renderCanvas c s) = linesRef s"
  "currentLineRef (renderCanvas c s) = currentLineRef s"
  by (simp_all add: renderCanvas_def)

lemma oneHand_Inr:
  assumes "oneHand hand w h rnd s = Inr (g, s')"
  shows "length hand > 20" and "g = detectGesture hand w h"
    and "isMenuOpen s' = (isMenuOpen s \<or> g = OPEN_PALM)"
    and "transformRef s' = transformRef s"
    and "prevPinchDistanceRef s' = None"
    and "settingsRef s' = settingsRef s"
  using assms by (auto simp add: oneHand_def finishLine_def Let_def split: if_splits)

lemma twoHands_Inr:
  assumes "twoHands h0 h1 w h s = Inr (g, s')"
  shows "length h0 > 8" and "length h1 > 8" and "g = TWO_FINGER_POINT"
    and "isMenuOpen s' = isMenuOpen s"
    and "linesRef s' = linesRef s"
    and "currentLineRef s' = currentLineRef s"
    and "particlesRef s' = particlesRef s"
    and "settingsRef s' = settingsRef s"
    and "prevPinchDistanceRef s' = Some (distance (tip h0 8 w h) (tip h1 8 w h))"
    and "scale (transformRef s') =
           (case prevPinchDistanceRef s of
              None \<Rightarrow> scale (transformRef s)
            | Some prev \<Rightarrow> max 0.5 (min 3 (scale (transformRef s)
                 + (distance (tip h0 8 w h) (tip h1 8 w h) - prev) * 0.005)))"
  using assms by (auto simp add: twoHands_def Let_def split: if_splits option.splits)

text \<open>The three ways through \<open>processHands\<close>: no hand, two hands, or the single-hand branch.\<close>

lemma processHands_cases:
  assumes "processHands results w h rnd s = Inr (g, s')"
  obtains (none) "results = None \<or> results = Some []" "g = UNKNOWN" "s' = s\<lparr>menuCursor := None\<rparr>"
  | (two) h0 h1 where "results = Some [h0, h1]" "twoHands h0 h1 w h (s\<lparr>menuCursor := None\<rparr>) = Inr (g, s')"
  | (one) hand rest where "results = Some (hand # rest)" "length rest \<noteq> 1"
      "oneHand hand w h rnd (s\<lparr>menuCursor := None\<rparr>) = Inr (g, s')"
proof (cases results)
  case None
  with assms that(1) show ?thesis by (simp add: processHands_def)
next
  case (Some landmarks)
  show ?thesis
  proof (cases landmarks)
    case Nil
    with Some assms that(1) show ?thesis by (simp add: processHands_def)
  next
    case (Cons hand rest)
    show ?thesis
    proof (cases "length rest = 1")
      case True
      then obtain h1 where "rest = [h1]" by (cases rest) auto
      with Some Cons assms that(2) show ?thesis by (simp add: processHands_def)
    next
      case False
      with Some Cons assms that(3) show ?thesis by (simp add: processHands_def)
    qed
  qed
qed

lemma step_Frame_Inr:
  assumes "step (Frame results w h rnd c) s = Inr s'"
  obtains g t where "processHands results w h rnd s = Inr (g, t)" and "s' = renderCanvas c t"
  using assms by (auto simp add: detect_def split: sum.splits)

lemma run_Cons_Inr:
  assumes "run (e # es) s = Inr s'"
  obtains s1 where "step e s = Inr s1" and "run es s1 = Inr s'"
  using assms by (auto split: sum.splits)

text \<open>The sample frames, evaluated.\<close>

lemma step_zoomFrame:
  "step (zoomFrame d) s =
     Inr (s\<lparr>menuCursor := None,
            transformRef := (transformRef s)\<lparr>scale :=
               (case prevPinchDistanceRef s of None \<Rightarrow> scale (transformRef s)
                | Some prev \<Rightarrow> max 0.5 (min 3 (scale (transformRef s) + (\<bar>d\<bar> - prev) * 0.005)))\<rparr>,
            prevPinchDistanceRef := Some \<bar>d\<bar>,
            particlesRef := tickParticles (particlesRef s)\<rparr>)"
  by (cases "prevPinchDistanceRef s")
     (simp_all add: zoomFrame_def detect_def processHands_def twoHands_def tip_handAt
        distance_same_y renderCanvas_def Let_def)

lemma step_noHands:
  "step noHands s = Inr (s\<lparr>menuCursor := None, particlesRef := tickParticles (particlesRef s)\<rparr>)"
  by (simp add: noHands_def detect_def processHands_def renderCanvas_def)

section \<open>Gesture classification\<close>



section \<open>Two-hand zoom\<close>

text \<open>
  C6. A frame with exactly two hands (each with an index tip, landmark 8) ends with the
  gesture TWO_FINGER_POINT, whatever the poses of the fingers; it stores the distance \<open>d\<close>
  between the two index tips on screen as the previous distance; and when a previous
  distance exists the new scale is max 0.5 (min 3 (scale + (d - previous) * 0.005)),
  otherwise the scale stays.
\<close>

theorem two_hands_zoom:
  assumes "8 < length h0" and "8 < length h1"
  shows "\<exists>s'. processHands (Some [h0, h1]) width height rnd s = Inr (TWO_FINGER_POINT, s')
           \<and> prevPinchDistanceRef s' = Some (distance (tip h0 8 width height) (tip h1 8 width height))
           \<and> scale (transformRef s') =
               (case prevPinchDistanceRef s of
                  None \<Rightarrow> scale (transformRef s)
                | Some previous \<Rightarrow>
                    max 0.5 (min 3 (scale (transformRef s)
                      + (distance (tip h0 8 width height) (tip h1 8 width height) - previous) * 0.005)))"
proof -
  obtain g s' where r: "twoHands h0 h1 width height (s\<lparr>menuCursor := None\<rparr>) = Inr (g, s')"
    using assms by (simp add: twoHands_def Let_def)
  have p: "processHands (Some [h0, h1]) width height rnd s = Inr (g, s')"
    using r by (simp add: processHands_def)
  from twoHands_Inr(3,9,10) [OF r] p show ?thesis
    by (cases "prevPinchDistanceRef s") simp_all
qed

theorem two_hands_zoom_witness:
  "8 < length (handAt 1 0) \<and> 8 < length (handAt 0 0)
   \<and> (\<exists>s'. processHands (Some [handAt 1 0, handAt 0 0]) 1000 1000 zeroDraws
              (initialState\<lparr>prevPinchDistanceRef := Some 100\<rparr>) = Inr (TWO_FINGER_POINT, s')
          \<and> prevPinchDistanceRef s' = Some 1000
          \<and> scale (transformRef s') = 3)"
proof -
  have a: "8 < length (handAt 1 0)" and b: "8 < length (handAt 0 0)" by simp_all
  have d: "distance (tip (handAt 1 0) 8 1000 1000) (tip (handAt 0 0) 8 1000 1000) = 1000"
    by (simp add: tip_handAt distance_same_y)
  show ?thesis
    using a b two_hands_zoom [OF a b, of 1000 1000 zeroDraws "initialState\<lparr>prevPinchDistanceRef := Some 100\<rparr>"]
    by (simp add: d initialState_def)
qed

text \<open>
  C2. The previous distance is cleared by a frame with one hand, but not by a frame with
  no hand: \<open>processHands\<close> does nothing but reset the menu cursor there. After two hands
  100 px apart, a frame without hands and two hands 200 px apart, the distance of the
  first frame is still stored and the third frame zooms by (200 - 100) * 0.005, from
  scale 1 to 1.5.
\<close>

theorem zero_hands_keep_previous_distance:
  "(\<exists>s. run [zoomFrame 100, noHands] initialState = Inr s
        \<and> prevPinchDistanceRef s = Some 100 \<and> scale (transformRef s) = 1)
   \<and> (\<exists>s. run [zoomFrame 100, noHands, zoomFrame 200] initialState = Inr s
        \<and> scale (transformRef s) = 1.5)"
  by (simp add: step_zoomFrame step_noHands initialState_def tickParticles_def)

text \<open>The single-hand branch does clear it, so the first two-hand frame after it only stores.\<close>

lemma one_hand_clears_previous_distance:
  assumes "length hand = 21"
  shows "\<exists>g s'. processHands (Some [hand]) width height rnd s = Inr (g, s')
           \<and> prevPinchDistanceRef s' = None"
proof -
  obtain g s' where r: "oneHand hand width height rnd (s\<lparr>menuCursor := None\<rparr>) = Inr (g, s')"
    using assms by (simp add: oneHand_def Let_def)
  from oneHand_Inr(5) [OF r] r show ?thesis by (simp add: processHands_def)
qed

section \<open>The scale stays in range\<close>

lemma clamp_range: "(1/2::real) \<le> max 0.5 (min 3 v) \<and> max 0.5 (min 3 v) \<le> 3"
  by (simp add: max_def min_def)

lemma processHands_scale:
  assumes "processHands results w h rnd s = Inr (g, s')"
    and "1/2 \<le> scale (transformRef s) \<and> scale (transformRef s) \<le> 3"
  shows "1/2 \<le> scale (transformRef s') \<and> scale (transformRef s') \<le> 3"
  using assms(1)
proof (cases rule: processHands_cases)
  case none
  with assms(2) show ?thesis by simp
next
  case (two h0 h1)
  from twoHands_Inr(10) [OF two(2)] assms(2) clamp_range show ?thesis
    by (cases "prevPinchDistanceRef (s\<lparr>menuCursor := None\<rparr>)") (simp_all del: max.bounded_iff min.bounded_iff)
next
  case (one hand rest)
  from oneHand_Inr(4) [OF one(3)] assms(2) show ?thesis by simp
qed

lemma step_scale:
  assumes "step e s = Inr s'"
    and "1/2 \<le> scale (transformRef s) \<and> scale (transformRef s) \<le> 3"
  shows "1/2 \<le> scale (transformRef s') \<and> scale (transformRef s') \<le> 3"
proof (cases e)
  case (Frame results w h rnd c)
  with assms(1) have "step (Frame results w h rnd c) s = Inr s'" by simp
  then obtain g t where p: "processHands results w h rnd s = Inr (g, t)"
    and s': "s' = renderCanvas c t"
    by (rule step_Frame_Inr)
  from processHands_scale [OF p assms(2)] s' show ?thesis by simp
next
  case (Select u)
  with assms show ?thesis by (auto simp add: handleMenuSelect_def)
next
  case Close
  with assms show ?thesis by (auto simp add: onClose_def)
qed

lemma run_scale:
  "run events s0 = Inr s \<Longrightarrow> 1/2 \<le> scale (transformRef s0) \<and> scale (transformRef s0) \<le> 3
     \<Longrightarrow> 1/2 \<le> scale (transformRef s) \<and> scale (transformRef s) \<le> 3"
proof (induction events arbitrary: s0)
  case Nil
  then show ?case by simp
next
  case (Cons e es)
  from Cons.prems(1) obtain s1 where e: "step e s0 = Inr s1" and r: "run es s1 = Inr s"
    by (rule run_Cons_Inr)
  from Cons.IH [OF r step_scale [OF e Cons.prems(2)]] show ?case .
qed

text \<open>
  C7. From the initial state (scale 1), after any sequence of frames, menu selections and
  menu closes that runs through, the scale is at least 0.5 and at most 3. A prefix of a
  sequence is a sequence, so this holds after every single event.
\<close>

theorem scale_clamped:
  assumes "run events initialState = Inr s"
  shows "1/2 \<le> scale (transformRef s) \<and> scale (transformRef s) \<le> 3"
  using run_scale [OF assms] by (simp add: initialState_def)

text \<open>Zooming in by 900 px stops at scale 3; zooming out by 900 px from there stops at 0.5.\<close>

theorem scale_clamped_witness:
  "\<exists>s. run [zoomFrame 100, zoomFrame 1000, zoomFrame 100] initialState = Inr s
       \<and> scale (transformRef s) = 1/2
       \<and> 1/2 \<le> scale (transformRef s) \<and> scale (transformRef s) \<le> 3"
proof -
  have r: "run [zoomFrame 100, zoomFrame 1000, zoomFrame 100] initialState =
        Inr \<lparr>isMenuOpen = False, menuCursor = None, currentGesture = UNKNOWN, linesRef = [],
             currentLineRef = [], particlesRef = [],
             settingsRef = \<lparr>ds_color = ''#00FFFF'', ds_size = 6, ds_tool = Pen\<rparr>,
             transformRef = \<lparr>scale = 1/2, offsetX = 0, offsetY = 0\<rparr>,
             prevPinchDistanceRef = Some 100\<rparr>"
    by (simp add: step_zoomFrame initialState_def tickParticles_def)
  from scale_clamped [OF r] r show ?thesis by simp
qed

section \<open>The menu latch\<close>

lemma processHands_latched:
  assumes "processHands results w h rnd s = Inr (g, s')" and "isMenuOpen s"
  shows "isMenuOpen s'"
  using assms(1)
proof (cases rule: processHands_cases)
  case none
  with assms(2) show ?thesis by simp
next
  case (two h0 h1)
  from twoHands_Inr(4) [OF two(2)] assms(2) show ?thesis by simp
next
  case (one hand rest)
  from oneHand_Inr(3) [OF one(3)] assms(2) show ?thesis by simp
qed

lemma step_latched:
  assumes "step e s = Inr s'" and "isMenuOpen s" and "e \<noteq> Close"
  shows "isMenuOpen s'"
proof (cases e)
  case (Frame results w h rnd c)
  with assms(1) have "step (Frame results w h rnd c) s = Inr s'" by simp
  then obtain g t where p: "processHands results w h rnd s = Inr (g, t)"
    and s': "s' = renderCanvas c t"
    by (rule step_Frame_Inr)
  from processHands_latched [OF p assms(2)] s' show ?thesis by simp
next
  case (Select u)
  with assms show ?thesis by (auto simp add: handleMenuSelect_def)
next
  case Close
  with assms show ?thesis by simp
qed

lemma run_latched:
  "run events s = Inr s' \<Longrightarrow> isMenuOpen s \<Longrightarrow> Close \<notin> set events \<Longrightarrow> isMenuOpen s'"
proof (induction events arbitrary: s)
  case Nil
  then show ?case by simp
next
  case (Cons e es)
  from Cons.prems(1) obtain s1 where e: "step e s = Inr s1" and r: "run es s1 = Inr s'"
    by (rule run_Cons_Inr)
  from Cons.prems(3) have "e \<noteq> Close" and n: "Close \<notin> set es" by auto
  from step_latched [OF e Cons.prems(2) this(1)] Cons.IH [OF r _ n] show ?case by simp
qed

text \<open>
  C8. A single-hand frame classified OPEN_PALM leaves the menu open, whether it was open
  before or not; a frame of any kind that starts with the menu open ends with it open; a
  sequence of events that starts with the menu open and holds no close action of the menu
  ends with it open; and the close action closes it.
\<close>

theorem menu_latched:
  "(length hand = 21 \<and> detectGesture hand width height = OPEN_PALM \<longrightarrow>
      (\<exists>s'. processHands (Some [hand]) width height rnd s = Inr (OPEN_PALM, s') \<and> isMenuOpen s'))
   \<and> (isMenuOpen s \<and> processHands results width height rnd s = Inr (g, t) \<longrightarrow> isMenuOpen t)
   \<and> (isMenuOpen s \<and> run events s = Inr u \<and> Close \<notin> set events \<longrightarrow> isMenuOpen u)
   \<and> \<not> isMenuOpen (onClose s)"
proof (intro conjI impI)
  assume a: "length hand = 21 \<and> detectGesture hand width height = OPEN_PALM"
  then obtain g' s' where r: "oneHand hand width height rnd (s\<lparr>menuCursor := None\<rparr>) = Inr (g', s')"
    by (simp add: oneHand_def Let_def)
  from a r have p: "processHands (Some [hand]) width height rnd s = Inr (g', s')"
    by (simp add: processHands_def)
  from oneHand_Inr(2,3) [OF r] a p
  show "\<exists>s'. processHands (Some [hand]) width height rnd s = Inr (OPEN_PALM, s') \<and> isMenuOpen s'"
    by simp
next
  assume "isMenuOpen s \<and> processHands results width height rnd s = Inr (g, t)"
  then show "isMenuOpen t" using processHands_latched by blast
next
  assume "isMenuOpen s \<and> run events s = Inr u \<and> Close \<notin> set events"
  then show "isMenuOpen u" using run_latched by blast
next
  show "\<not> isMenuOpen (onClose s)" by (simp add: onClose_def)
qed

text \<open>The sample single-hand frames, evaluated.\<close>

lemma step_palmFrame:
  "step (handFrame palmHand) s =
     Inr (renderCanvas True
       (let s0 = s\<lparr>menuCursor := None, prevPinchDistanceRef := None, currentGesture := OPEN_PALM\<rparr>
        in if isMenuOpen s then s0\<lparr>menuCursor := Some \<lparr>pt_x = 500, pt_y = 500\<rparr>\<rparr>
           else if currentLineRef s \<noteq> [] then finishLine (s0\<lparr>isMenuOpen := True\<rparr>)
           else s0\<lparr>isMenuOpen := True\<rparr>))"
  by (simp add: handFrame_def detect_def processHands_def oneHand_def detectGesture_palmHand
        palmHand_tips Let_def)

lemma step_restFrame:
  "step (handFrame restHand) s =
     Inr (renderCanvas True
       (let s0 = s\<lparr>menuCursor := None, prevPinchDistanceRef := None, currentGesture := UNKNOWN\<rparr>
        in if isMenuOpen s then s0\<lparr>menuCursor := Some \<lparr>pt_x = 500, pt_y = 500\<rparr>\<rparr>
           else if currentLineRef s \<noteq> [] then finishLine s0 else s0))"
  by (simp add: handFrame_def detect_def processHands_def oneHand_def detectGesture_restHand
        restHand_tips Let_def)

lemma step_pinchFrame:
  assumes "\<bar>900 - v * 1000\<bar> \<ge> 125"
  shows "step (handFrame (pinchHandAt v)) s =
     Inr (renderCanvas True
       (let s0 = s\<lparr>menuCursor := None, prevPinchDistanceRef := None, currentGesture := PINCH\<rparr>
        in if isMenuOpen s then s0\<lparr>menuCursor := Some \<lparr>pt_x = 500, pt_y = v * 1000\<rparr>\<rparr>
           else s0\<lparr>currentLineRef := currentLineRef s
                      @ [worldPoint (transformRef s) (pinchHandAt v) 1000 1000]\<rparr>))"
  by (simp add: handFrame_def detect_def processHands_def oneHand_def
        detectGesture_pinchHandAt [OF assms] pinchHandAt_tips Let_def)

theorem menu_latched_witness:
  "(length palmHand = 21 \<and> detectGesture palmHand 1000 1000 = OPEN_PALM)
   \<and> (\<exists>s'. processHands (Some [palmHand]) 1000 1000 zeroDraws initialState = Inr (OPEN_PALM, s')
          \<and> isMenuOpen s')
   \<and> (\<exists>t. isMenuOpen (initialState\<lparr>isMenuOpen := True\<rparr>)
          \<and> processHands (Some [palmHand]) 1000 1000 zeroDraws (initialState\<lparr>isMenuOpen := True\<rparr>)
              = Inr (OPEN_PALM, t)
          \<and> isMenuOpen t)
   \<and> (\<exists>u. run [handFrame palmHand, handFrame restHand, noHands, zoomFrame 100]
              (initialState\<lparr>isMenuOpen := True\<rparr>) = Inr u
          \<and> Close \<notin> set [handFrame palmHand, handFrame restHand, noHands, zoomFrame 100]
          \<and> isMenuOpen u)"
proof -
  let ?open = "initialState\<lparr>isMenuOpen := True\<rparr>"
  let ?events = "[handFrame palmHand, handFrame restHand, noHands, zoomFrame 100]"
  have a: "length palmHand = 21 \<and> detectGesture palmHand 1000 1000 = OPEN_PALM"
    by (simp add: detectGesture_palmHand)
  have b: "\<exists>s'. processHands (Some [palmHand]) 1000 1000 zeroDraws initialState = Inr (OPEN_PALM, s')
          \<and> isMenuOpen s'"
    using a menu_latched [where hand = palmHand and width = 1000 and height = 1000
        and rnd = zeroDraws and s = initialState] by blast
  obtain t where t: "processHands (Some [palmHand]) 1000 1000 zeroDraws ?open = Inr (OPEN_PALM, t)"
    using a menu_latched [where hand = palmHand and width = 1000 and height = 1000
        and rnd = zeroDraws and s = ?open] by blast
  have o: "isMenuOpen ?open" by simp
  have c: "isMenuOpen t"
    using o t menu_latched [where width = 1000 and height = 1000 and rnd = zeroDraws
        and s = ?open and results = "Some [palmHand]" and g = OPEN_PALM and t = t]
    by blast
  obtain u where u: "run ?events ?open = Inr u"
    by (simp add: step_palmFrame step_restFrame step_noHands step_zoomFrame
          renderCanvas_def Let_def)
  have n: "Close \<notin> set ?events"
    by (simp add: handFrame_def noHands_def zoomFrame_def)
  have d: "isMenuOpen u"
    using o u n menu_latched [where s = ?open and events = ?events and u = u]
    by blast
  from a b o t c u n d show ?thesis by blast
qed

section \<open>Dissolve\<close>

lemma length_everySecond: "length (everySecond ps) = (length ps + 1) div 2"
  by (induction ps rule: everySecond.induct) simp_all

lemma everySecond_Cons: "everySecond (p # ps) = p # everySecond (tl ps)"
  by (cases ps) simp_all

text \<open>
  The \<^verbatim>\<open>forEach\<close> with its index test \<^verbatim>\<open>i % 2 === 0\<close> takes every second point; started
  at an odd index it would skip the first.
\<close>

lemma addParticlesFrom_positions:
  "map position (fst (addParticlesFrom T rnd c z i ps k)) =
     map (worldToScreen T) (everySecond (if i mod 2 = 0 then ps else tl ps))"
proof (induction ps arbitrary: i k)
  case Nil
  then show ?case by simp
next
  case (Cons p ps)
  show ?case
  proof (cases "i mod 2 = 0")
    case True
    then have odd: "(i + 1) mod 2 \<noteq> 0" by presburger
    have "position (newParticle T rnd k p c z) = worldToScreen T p"
      by (simp add: newParticle_def position_def worldToScreen_def)
    with True odd Cons [of "i + 1" "k + 3"] show ?thesis
      by (simp add: split_beta Let_def everySecond_Cons del: everySecond.simps)
  next
    case False
    then have even: "(i + 1) mod 2 = 0" by presburger
    with False Cons [of "i + 1" k] show ?thesis by simp
  qed
qed

lemma addParticlesFrom_wellSpawned:
  assumes "\<forall>n. 0 \<le> rnd n \<and> rnd n < 1"
  shows "list_all wellSpawned (fst (addParticlesFrom T rnd c z i ps k))"
proof (induction ps arbitrary: i k)
  case Nil
  then show ?case by simp
next
  case (Cons p ps)
  have "wellSpawned (newParticle T rnd k p c z)"
    using assms [rule_format, of k] assms [rule_format, of "k + 1"]
    by (simp add: wellSpawned_def newParticle_def)
  with Cons [of "i + 1" "k + 3"] Cons [of "i + 1" k] show ?case
    by (simp add: split_beta Let_def)
qed

lemma addParticlesFromLines_positions:
  "map position (fst (addParticlesFromLines T rnd lines k)) =
     map (worldToScreen T) (concat (map everySecond (map st_points lines)))"
  by (induction lines arbitrary: k)
     (simp_all add: split_beta Let_def addParticlesFromPoints_def addParticlesFrom_positions)

lemma addParticlesFromLines_wellSpawned:
  assumes "\<forall>n. 0 \<le> rnd n \<and> rnd n < 1"
  shows "list_all wellSpawned (fst (addParticlesFromLines T rnd lines k))"
  by (induction lines arbitrary: k)
     (simp_all add: split_beta Let_def addParticlesFromPoints_def
        addParticlesFrom_wellSpawned [OF assms])

lemma newParticles_positions:
  "map position (newParticles rnd s) = map (worldToScreen (transformRef s)) (sampledPoints s)"
  by (simp add: newParticles_def sampledPoints_def split_beta Let_def addParticlesFromPoints_def
        addParticlesFromLines_positions addParticlesFrom_positions)

lemma newParticles_wellSpawned:
  assumes "\<forall>n. 0 \<le> rnd n \<and> rnd n < 1"
  shows "list_all wellSpawned (newParticles rnd s)"
  by (simp add: newParticles_def split_beta Let_def addParticlesFromPoints_def
        addParticlesFromLines_wellSpawned [OF assms] addParticlesFrom_wellSpawned [OF assms])

lemma length_sampledPoints:
  "length (sampledPoints s) =
     sum_list (map (\<lambda>line. (length (st_points line) + 1) div 2) (linesRef s))
       + (length (currentLineRef s) + 1) div 2"
  by (simp add: sampledPoints_def length_concat comp_def length_everySecond)

text \<open>With nothing drawn \<open>dissolveDrawing\<close> returns early; nothing would be spawned anyway.\<close>

lemma dissolveDrawing_result:
  "linesRef (dissolveDrawing rnd s) = []"
  "currentLineRef (dissolveDrawing rnd s) = []"
  "particlesRef (dissolveDrawing rnd s) = particlesRef s @ newParticles rnd s"
  by (simp_all add: dissolveDrawing_def newParticles_def addParticlesFromPoints_def)

text \<open>The state a single-hand frame hands to the dissolve, when the menu is closed and the hand does not pinch.\<close>

lemma sampledPoints_finishLine:
  "sampledPoints (finishLine s) = sampledPoints s"
  by (simp add: sampledPoints_def finishLine_def)

lemma oneHand_not_pinch:
  assumes "length hand = 21" and "\<not> isMenuOpen s" and "detectGesture hand w h = g" and "g \<noteq> PINCH"
  shows "oneHand hand w h rnd s =
     Inr (g, (if g = V_SIGN then dissolveDrawing rnd else id)
               ((if currentLineRef s \<noteq> [] then finishLine else id)
                  ((if g = OPEN_PALM then isMenuOpen_update (\<lambda>_. True) else id)
                     (s\<lparr>prevPinchDistanceRef := None, currentGesture := g\<rparr>))))"
  using assms by (auto simp add: oneHand_def Let_def)

text \<open>
  C3, as the code has it. On a single-hand frame classified V_SIGN with the menu closed,
  the stroke list and the active stroke are empty afterwards. The particles spawned are
  appended to the live ones, one for every second point (by index) of each finalized
  stroke and of the active stroke, the index starting at 0 in each of them: their number
  is the sum over the strokes and the active stroke of (length + 1) div 2, the rounded-up
  half of each length. The positions are the view transform applied to the sampled
  points, in order; with every random draw in [0, 1) each particle has horizontal velocity
  in [-1, 1], vertical velocity in [1, 3] and life 1.
\<close>

theorem dissolve_on_v_sign:
  assumes "length hand = 21"
    and "detectGesture hand width height = V_SIGN"
    and "\<not> isMenuOpen s"
    and "\<forall>n. 0 \<le> rnd n \<and> rnd n < 1"
  shows "\<exists>s' spawned.
           processHands (Some [hand]) width height rnd s = Inr (V_SIGN, s')
         \<and> linesRef s' = [] \<and> currentLineRef s' = []
         \<and> particlesRef s' = particlesRef s @ spawned
         \<and> length spawned =
             sum_list (map (\<lambda>line. (length (st_points line) + 1) div 2) (linesRef s))
               + (length (currentLineRef s) + 1) div 2
         \<and> map position spawned = map (worldToScreen (transformRef s)) (sampledPoints s)
         \<and> list_all wellSpawned spawned"
proof -
  let ?s0 = "s\<lparr>menuCursor := None\<rparr>"
  let ?s3 = "(if currentLineRef ?s0 \<noteq> [] then finishLine else id)
               (?s0\<lparr>prevPinchDistanceRef := None, currentGesture := V_SIGN\<rparr>)"
  let ?spawned = "newParticles rnd ?s3"
  have p: "processHands (Some [hand]) width height rnd s = Inr (V_SIGN, dissolveDrawing rnd ?s3)"
    using oneHand_not_pinch [of hand ?s0 width height V_SIGN rnd] assms(1,2,3)
    by (simp add: processHands_def)
  have sp: "sampledPoints ?s3 = sampledPoints s"
    by (simp add: sampledPoints_finishLine) (simp add: sampledPoints_def)
  have tr: "transformRef ?s3 = transformRef s" and pa: "particlesRef ?s3 = particlesRef s"
    by (simp_all add: finishLine_def)
  have pos: "map position ?spawned = map (worldToScreen (transformRef s)) (sampledPoints s)"
    using newParticles_positions [of rnd ?s3] by (simp only: sp tr)
  have "length (map position ?spawned) = length (sampledPoints s)"
    by (simp only: pos length_map)
  then have len: "length ?spawned =
             sum_list (map (\<lambda>line. (length (st_points line) + 1) div 2) (linesRef s))
               + (length (currentLineRef s) + 1) div 2"
    by (simp only: length_map length_sampledPoints)
  from p dissolveDrawing_result [of rnd ?s3] pa len pos newParticles_wellSpawned [OF assms(4), of ?s3]
  show ?thesis by (intro exI [of _ "dissolveDrawing rnd ?s3"] exI [of _ ?spawned]) simp
qed

theorem dissolve_on_v_sign_witness:
  "length vHand = 21 \<and> detectGesture vHand 1000 1000 = V_SIGN \<and> \<not> isMenuOpen sketch
   \<and> (\<forall>n. 0 \<le> zeroDraws n \<and> zeroDraws n < 1)
   \<and> (\<exists>s' spawned.
          processHands (Some [vHand]) 1000 1000 zeroDraws sketch = Inr (V_SIGN, s')
        \<and> linesRef s' = [] \<and> currentLineRef s' = []
        \<and> particlesRef s' = particlesRef sketch @ spawned
        \<and> length spawned = 3
        \<and> map position spawned = [\<lparr>pt_x = 510, pt_y = 500\<rparr>, \<lparr>pt_x = 510, pt_y = 300\<rparr>,
               \<lparr>pt_x = 510, pt_y = 500\<rparr>]
        \<and> list_all wellSpawned spawned)"
proof -
  have a: "length vHand = 21" by simp
  have b: "detectGesture vHand 1000 1000 = V_SIGN" by (rule detectGesture_vHand)
  have c: "\<not> isMenuOpen sketch" by (simp add: sketch_def)
  have d: "\<forall>n. 0 \<le> zeroDraws n \<and> zeroDraws n < 1" by (simp add: zeroDraws_def)
  have e: "sum_list (map (\<lambda>line. (length (st_points line) + 1) div 2) (linesRef sketch))
             + (length (currentLineRef sketch) + 1) div 2 = 3"
    by (simp add: sketch_def)
  have f: "map (worldToScreen (transformRef sketch)) (sampledPoints sketch)
             = [\<lparr>pt_x = 510, pt_y = 500\<rparr>, \<lparr>pt_x = 510, pt_y = 300\<rparr>,
               \<lparr>pt_x = 510, pt_y = 500\<rparr>]"
    by (simp add: sketch_def sampledPoints_def worldToScreen_def)
  from dissolve_on_v_sign [OF a b c d] a b c d show ?thesis
    by (simp only: e f) blast
qed

text \<open>
  The count is not the rounded-up half of all points: the sketch holds 3 + 1 = 4 points,
  half of that is 2, and the dissolve spawns 3 particles, from the points 0 and 2 of the
  stroke and the point 0 of the active stroke.
\<close>

theorem dissolve_count_counterexample:
  "\<not> isMenuOpen sketch \<and> detectGesture vHand 1000 1000 = V_SIGN
   \<and> totalPoints sketch = 4 \<and> \<lceil>real (totalPoints sketch) / 2\<rceil> = 2
   \<and> processHands (Some [vHand]) 1000 1000 zeroDraws sketch =
       Inr (V_SIGN, sketch\<lparr>currentGesture := V_SIGN, linesRef := [], currentLineRef := [],
              particlesRef :=
                [\<lparr>pa_x = 510, pa_y = 500, pa_vx = - 1, pa_vy = 1, pa_color = ''#00FFFF'',
                  pa_size = 1, pa_life = 1, pa_maxLife = 1\<rparr>,
                 \<lparr>pa_x = 510, pa_y = 300, pa_vx = - 1, pa_vy = 1, pa_color = ''#00FFFF'',
                  pa_size = 1, pa_life = 1, pa_maxLife = 1\<rparr>,
                 \<lparr>pa_x = 510, pa_y = 500, pa_vx = - 1, pa_vy = 1, pa_color = ''#00FFFF'',
                  pa_size = 1, pa_life = 1, pa_maxLife = 1\<rparr>]\<rparr>)"
proof -
  have "totalPoints sketch = 4" by (simp add: totalPoints_def sketch_def)
  moreover have "processHands (Some [vHand]) 1000 1000 zeroDraws sketch =
       Inr (V_SIGN, sketch\<lparr>currentGesture := V_SIGN, linesRef := [], currentLineRef := [],
              particlesRef :=
                [\<lparr>pa_x = 510, pa_y = 500, pa_vx = - 1, pa_vy = 1, pa_color = ''#00FFFF'',
                  pa_size = 1, pa_life = 1, pa_maxLife = 1\<rparr>,
                 \<lparr>pa_x = 510, pa_y = 300, pa_vx = - 1, pa_vy = 1, pa_color = ''#00FFFF'',
                  pa_size = 1, pa_life = 1, pa_maxLife = 1\<rparr>,
                 \<lparr>pa_x = 510, pa_y = 500, pa_vx = - 1, pa_vy = 1, pa_color = ''#00FFFF'',
                  pa_size = 1, pa_life = 1, pa_maxLife = 1\<rparr>]\<rparr>)"
    by (simp add: processHands_def oneHand_def detectGesture_vHand Let_def sketch_def
          finishLine_def dissolveDrawing_def newParticles_def addParticlesFromPoints_def
          newParticle_def zeroDraws_def)
  ultimately show ?thesis
    by (simp add: detectGesture_vHand) (simp add: sketch_def)
qed

section \<open>Drawing\<close>

text \<open>The sketch is what three pinch frames, a frame without gesture and one more pinch frame draw.\<close>

lemma sketch_reachable:
  "run [handFrame (pinchHandAt 0.5), handFrame (pinchHandAt 0.4), handFrame (pinchHandAt 0.3),
        handFrame restHand, handFrame (pinchHandAt 0.5)] initialState = Inr sketch"
  by (simp add: step_pinchFrame step_restFrame worldPoint_pinchHandAt renderCanvas_def
        tickParticles_def finishLine_def initialState_def sketch_def Let_def)

lemma oneHand_pinch:
  assumes "length hand = 21" and "\<not> isMenuOpen s" and "detectGesture hand w h = PINCH"
  shows "oneHand hand w h rnd s =
     Inr (PINCH, s\<lparr>prevPinchDistanceRef := None, currentGesture := PINCH,
                   currentLineRef := currentLineRef s @ [worldPoint (transformRef s) hand w h]\<rparr>)"
  using assms by (simp add: oneHand_def Let_def)

text \<open>A run of pinch frames with the menu closed appends one world point per frame.\<close>

lemma pinch_frames:
  assumes "\<forall>hand \<in> set hands. length hand = 21 \<and> detectGesture hand w h = PINCH"
    and "\<not> isMenuOpen s"
  shows "\<exists>s'. run (map (\<lambda>hand. Frame (Some [hand]) w h rnd c) hands) s = Inr s'
           \<and> currentLineRef s' = currentLineRef s @ map (\<lambda>hand. worldPoint (transformRef s) hand w h) hands
           \<and> linesRef s' = linesRef s \<and> transformRef s' = transformRef s \<and> \<not> isMenuOpen s'"
  using assms
proof (induction hands arbitrary: s)
  case Nil
  then show ?case by simp
next
  case (Cons hand hands)
  let ?s1 = "renderCanvas c (s\<lparr>menuCursor := None, prevPinchDistanceRef := None, currentGesture := PINCH,
                   currentLineRef := currentLineRef s @ [worldPoint (transformRef s) hand w h]\<rparr>)"
  from Cons.prems have hd: "length hand = 21" "detectGesture hand w h = PINCH"
    and tl: "\<forall>hand \<in> set hands. length hand = 21 \<and> detectGesture hand w h = PINCH"
    by simp_all
  have st: "step (Frame (Some [hand]) w h rnd c) s = Inr ?s1"
    using oneHand_pinch [of hand "s\<lparr>menuCursor := None\<rparr>" w h rnd] hd Cons.prems(2)
    by (simp add: detect_def processHands_def)
  have "\<not> isMenuOpen ?s1" using Cons.prems(2) by simp
  from Cons.IH [OF tl this] st show ?case by auto
qed

text \<open>
  C4, as the code has it. With the menu closed:
  \<^item> a single-hand frame classified PINCH appends to the active stroke the midpoint of thumb
    tip and index tip, taken from screen to world space by the view transform
    (\<open>worldPoint\<close>), and leaves the stroke list alone; so a run of such frames appends
    their world points in order;
  \<^item> a single-hand frame classified as anything but PINCH, with a non-empty active stroke,
    turns it into a stroke with the current color, size and tool at the end of the stroke
    list and empties the active stroke; when the gesture is V_SIGN, the dissolve of the
    same frame then consumes the list with the new stroke in it;
  \<^item> a two-hand frame (gesture TWO_FINGER_POINT) leaves the active stroke and the stroke
    list as they are.
\<close>

theorem drawing_branch:
  "(length hand = 21 \<and> \<not> isMenuOpen s \<and> detectGesture hand width height = PINCH \<longrightarrow>
      (\<exists>s'. processHands (Some [hand]) width height rnd s = Inr (PINCH, s')
           \<and> currentLineRef s' = currentLineRef s @ [worldPoint (transformRef s) hand width height]
           \<and> linesRef s' = linesRef s))
   \<and> (\<not> isMenuOpen s
        \<and> (\<forall>hand \<in> set hands. length hand = 21 \<and> detectGesture hand width height = PINCH) \<longrightarrow>
      (\<exists>s'. run (map (\<lambda>hand. Frame (Some [hand]) width height rnd haveCtx) hands) s = Inr s'
           \<and> currentLineRef s' =
               currentLineRef s @ map (\<lambda>hand. worldPoint (transformRef s) hand width height) hands
           \<and> linesRef s' = linesRef s))
   \<and> (length hand = 21 \<and> \<not> isMenuOpen s \<and> detectGesture hand width height = g
        \<and> g \<noteq> PINCH \<and> currentLineRef s \<noteq> [] \<longrightarrow>
      (\<exists>s'. processHands (Some [hand]) width height rnd s = Inr (g, s')
           \<and> s' = (if g = V_SIGN then dissolveDrawing rnd else id)
                    (finishLine ((if g = OPEN_PALM then isMenuOpen_update (\<lambda>_. True) else id)
                       (s\<lparr>menuCursor := None, prevPinchDistanceRef := None, currentGesture := g\<rparr>)))
           \<and> currentLineRef s' = []
           \<and> linesRef s' =
                (if g = V_SIGN then []
                 else linesRef s @ [\<lparr>st_points = currentLineRef s,
                                      st_color = ds_color (settingsRef s),
                                      st_size = ds_size (settingsRef s),
                                      st_type = ds_tool (settingsRef s)\<rparr>])))
   \<and> (8 < length h0 \<and> 8 < length h1 \<longrightarrow>
      (\<exists>s'. processHands (Some [h0, h1]) width height rnd s = Inr (TWO_FINGER_POINT, s')
           \<and> currentLineRef s' = currentLineRef s \<and> linesRef s' = linesRef s))"
proof (intro conjI impI)
  assume a: "length hand = 21 \<and> \<not> isMenuOpen s \<and> detectGesture hand width height = PINCH"
  then show "\<exists>s'. processHands (Some [hand]) width height rnd s = Inr (PINCH, s')
           \<and> currentLineRef s' = currentLineRef s @ [worldPoint (transformRef s) hand width height]
           \<and> linesRef s' = linesRef s"
    using oneHand_pinch [of hand "s\<lparr>menuCursor := None\<rparr>" width height rnd]
    by (simp add: processHands_def)
next
  assume "\<not> isMenuOpen s
        \<and> (\<forall>hand \<in> set hands. length hand = 21 \<and> detectGesture hand width height = PINCH)"
  then show "\<exists>s'. run (map (\<lambda>hand. Frame (Some [hand]) width height rnd haveCtx) hands) s = Inr s'
           \<and> currentLineRef s' =
               currentLineRef s @ map (\<lambda>hand. worldPoint (transformRef s) hand width height) hands
           \<and> linesRef s' = linesRef s"
    using pinch_frames [of hands width height s rnd haveCtx] by blast
next
  assume a: "length hand = 21 \<and> \<not> isMenuOpen s \<and> detectGesture hand width height = g
        \<and> g \<noteq> PINCH \<and> currentLineRef s \<noteq> []"
  let ?s' = "(if g = V_SIGN then dissolveDrawing rnd else id)
                    (finishLine ((if g = OPEN_PALM then isMenuOpen_update (\<lambda>_. True) else id)
                       (s\<lparr>menuCursor := None, prevPinchDistanceRef := None, currentGesture := g\<rparr>)))"
  have p: "processHands (Some [hand]) width height rnd s = Inr (g, ?s')"
    using a oneHand_not_pinch [of hand "s\<lparr>menuCursor := None\<rparr>" width height g rnd]
    by (simp add: processHands_def)
  have "currentLineRef ?s' = []"
    by (simp add: dissolveDrawing_result finishLine_def)
  moreover have "linesRef ?s' =
                (if g = V_SIGN then []
                 else linesRef s @ [\<lparr>st_points = currentLineRef s,
                                      st_color = ds_color (settingsRef s),
                                      st_size = ds_size (settingsRef s),
                                      st_type = ds_tool (settingsRef s)\<rparr>])"
    by (simp add: dissolveDrawing_result finishLine_def)
  ultimately show "\<exists>s'. processHands (Some [hand]) width height rnd s = Inr (g, s')
           \<and> s' = ?s' \<and> currentLineRef s' = []
           \<and> linesRef s' =
                (if g = V_SIGN then []
                 else linesRef s @ [\<lparr>st_points = currentLineRef s,
                                      st_color = ds_color (settingsRef s),
                                      st_size = ds_size (settingsRef s),
                                      st_type = ds_tool (settingsRef s)\<rparr>])"
    using p by blast
next
  assume a: "8 < length h0 \<and> 8 < length h1"
  then obtain g' s' where r: "twoHands h0 h1 width height (s\<lparr>menuCursor := None\<rparr>) = Inr (g', s')"
    by (simp add: twoHands_def Let_def)
  from twoHands_Inr(3,5,6) [OF r] r
  show "\<exists>s'. processHands (Some [h0, h1]) width height rnd s = Inr (TWO_FINGER_POINT, s')
           \<and> currentLineRef s' = currentLineRef s \<and> linesRef s' = linesRef s"
    by (simp add: processHands_def)
qed

text \<open>
  Three pinch frames with the midpoints (510, 500), (510, 400) and (510, 300) from the
  initial state give an active stroke of these three points; a following frame without
  gesture makes them a stroke.
\<close>

theorem drawing_branch_witness:
  "(length (pinchHandAt 0.5) = 21 \<and> \<not> isMenuOpen initialState
      \<and> detectGesture (pinchHandAt 0.5) 1000 1000 = PINCH)
   \<and> (\<exists>s'. processHands (Some [pinchHandAt 0.5]) 1000 1000 zeroDraws initialState = Inr (PINCH, s')
          \<and> currentLineRef s' = [\<lparr>pt_x = 510, pt_y = 500\<rparr>] \<and> linesRef s' = [])
   \<and> (\<exists>s'. run (map (\<lambda>hand. Frame (Some [hand]) 1000 1000 zeroDraws True)
                  [pinchHandAt 0.5, pinchHandAt 0.4, pinchHandAt 0.3]) initialState = Inr s'
          \<and> currentLineRef s' = [\<lparr>pt_x = 510, pt_y = 500\<rparr>, \<lparr>pt_x = 510, pt_y = 400\<rparr>,
                                  \<lparr>pt_x = 510, pt_y = 300\<rparr>]
          \<and> linesRef s' = [])
   \<and> (length restHand = 21 \<and> detectGesture restHand 1000 1000 = UNKNOWN \<and> UNKNOWN \<noteq> PINCH
      \<and> currentLineRef (sketch\<lparr>linesRef := []\<rparr>) \<noteq> [])
   \<and> (\<exists>s'. processHands (Some [restHand]) 1000 1000 zeroDraws (sketch\<lparr>linesRef := []\<rparr>)
              = Inr (UNKNOWN, s')
          \<and> currentLineRef s' = []
          \<and> linesRef s' = [\<lparr>st_points = [\<lparr>pt_x = 510, pt_y = 500\<rparr>], st_color = ''#00FFFF'',
                              st_size = 6, st_type = Pen\<rparr>])
   \<and> (8 < length (handAt 1 0) \<and> 8 < length (handAt 0.9 0))
   \<and> (\<exists>s'. processHands (Some [handAt 1 0, handAt 0.9 0]) 1000 1000 zeroDraws sketch
              = Inr (TWO_FINGER_POINT, s')
          \<and> currentLineRef s' = currentLineRef sketch \<and> linesRef s' = linesRef sketch)"
proof -
  let ?hands = "[pinchHandAt 0.5, pinchHandAt 0.4, pinchHandAt 0.3]"
  let ?s = "sketch\<lparr>linesRef := []\<rparr>"
  have g: "detectGesture (pinchHandAt 0.5) 1000 1000 = PINCH"
    "detectGesture (pinchHandAt 0.4) 1000 1000 = PINCH"
    "detectGesture (pinchHandAt 0.3) 1000 1000 = PINCH"
    by (simp_all add: detectGesture_pinchHandAt)
  have a: "length (pinchHandAt 0.5) = 21 \<and> \<not> isMenuOpen initialState
      \<and> detectGesture (pinchHandAt 0.5) 1000 1000 = PINCH"
    using g by (simp add: initialState_def)
  have b: "\<not> isMenuOpen initialState
      \<and> (\<forall>hand \<in> set ?hands. length hand = 21 \<and> detectGesture hand 1000 1000 = PINCH)"
    using g by (simp add: initialState_def)
  have c: "length restHand = 21 \<and> \<not> isMenuOpen ?s \<and> detectGesture restHand 1000 1000 = UNKNOWN
      \<and> UNKNOWN \<noteq> PINCH \<and> currentLineRef ?s \<noteq> []"
    by (simp add: detectGesture_restHand sketch_def)
  have d: "8 < length (handAt 1 0) \<and> 8 < length (handAt 0.9 0)" by simp
  have t: "transformRef initialState = \<lparr>scale = 1, offsetX = 0, offsetY = 0\<rparr>"
    "currentLineRef initialState = []" "linesRef initialState = []"
    by (simp_all add: initialState_def)
  note th = drawing_branch [where width = 1000 and height = 1000 and rnd = zeroDraws]
  from a th [where hand = "pinchHandAt 0.5" and s = initialState]
  have 1: "\<exists>s'. processHands (Some [pinchHandAt 0.5]) 1000 1000 zeroDraws initialState = Inr (PINCH, s')
          \<and> currentLineRef s' = [\<lparr>pt_x = 510, pt_y = 500\<rparr>] \<and> linesRef s' = []"
    by (simp add: t worldPoint_pinchHandAt)
  from b th [where hands = ?hands and s = initialState and haveCtx = True]
  have 2: "\<exists>s'. run (map (\<lambda>hand. Frame (Some [hand]) 1000 1000 zeroDraws True) ?hands) initialState = Inr s'
          \<and> currentLineRef s' = [\<lparr>pt_x = 510, pt_y = 500\<rparr>, \<lparr>pt_x = 510, pt_y = 400\<rparr>,
                                  \<lparr>pt_x = 510, pt_y = 300\<rparr>]
          \<and> linesRef s' = []"
    by (simp add: t worldPoint_pinchHandAt)
  from c th [where hand = restHand and s = ?s and g = UNKNOWN]
  have 3: "\<exists>s'. processHands (Some [restHand]) 1000 1000 zeroDraws ?s = Inr (UNKNOWN, s')
          \<and> currentLineRef s' = []
          \<and> linesRef s' = [\<lparr>st_points = [\<lparr>pt_x = 510, pt_y = 500\<rparr>], st_color = ''#00FFFF'',
                              st_size = 6, st_type = Pen\<rparr>]"
    by (simp add: sketch_def)
  from d th [where ?h0.0 = "handAt 1 0" and ?h1.0 = "handAt 0.9 0" and s = sketch]
  have 4: "\<exists>s'. processHands (Some [handAt 1 0, handAt 0.9 0]) 1000 1000 zeroDraws sketch
              = Inr (TWO_FINGER_POINT, s')
          \<and> currentLineRef s' = currentLineRef sketch \<and> linesRef s' = linesRef sketch"
    by simp
  from a 1 2 c 3 d 4 show ?thesis by simp
qed

text \<open>
  Not every frame without a pinch ends the stroke: with the sketch's active stroke of one
  point, a two-hand frame (index tips 100 px apart) is classified TWO_FINGER_POINT and
  changes nothing but the stored distance.
\<close>

theorem drawing_branch_counterexample:
  "\<not> isMenuOpen sketch \<and> currentLineRef sketch \<noteq> [] \<and> TWO_FINGER_POINT \<noteq> PINCH
   \<and> processHands (Some [handAt 1 0, handAt 0.9 0]) 1000 1000 zeroDraws sketch
       = Inr (TWO_FINGER_POINT, sketch\<lparr>prevPinchDistanceRef := Some 100\<rparr>)
   \<and> currentLineRef (sketch\<lparr>prevPinchDistanceRef := Some 100\<rparr>) = currentLineRef sketch
   \<and> linesRef (sketch\<lparr>prevPinchDistanceRef := Some 100\<rparr>) = linesRef sketch"
  by (simp add: processHands_def twoHands_def tip_handAt distance_same_y Let_def)
     (simp add: sketch_def)

text \<open>
  A frame without hands is the other case: \<open>processHands\<close> resets the menu cursor and
  touches nothing else, so an active stroke stays open.
\<close>

lemma no_hands_frame:
  "processHands (Some []) width height rnd s = Inr (UNKNOWN, s\<lparr>menuCursor := None\<rparr>)"
  "processHands None width height rnd s = Inr (UNKNOWN, s\<lparr>menuCursor := None\<rparr>)"
  by (simp_all add: processHands_def)

section \<open>Dwell selection\<close>

text \<open>
  The cursor held on the pen button, the effect running every 100 ms: nothing is selected
  up to 799 ms, the pen is selected at 800 ms, and nothing more in the 1200 ms after it.
\<close>

lemma dwell_fires_once:
  "selections (menuRun sampleMenu
      [Render True onPen, Elapse 100, Render True onPen, Elapse 699] menuInit) = []"
  "selections (menuRun sampleMenu
      [Render True onPen, Elapse 100, Render True onPen, Elapse 699, Elapse 1] menuInit)
     = [(800, SelectTool ''pen'')]"
  "selections (menuRun sampleMenu
      [Render True onPen, Elapse 100, Render True onPen, Elapse 699, Elapse 1,
       Render True onPen, Elapse 600, Render True onPen, Elapse 600] menuInit)
     = [(800, SelectTool ''pen'')]"
  by (simp_all add: sampleMenu_def onPen_def menuInit_def hoverEffect_def inside_def
        setHoverTimer_def clearHoverTimer_def clearTimeout_def elapse_def fire_def)

text \<open>
  Leaving the regions, or moving to another region, cancels the pending timeout; a
  selection then takes a full dwell from the new entry.
\<close>

lemma dwell_cancelled_on_leave:
  "selections (menuRun sampleMenu
      [Render True onPen, Elapse 400, Render True offMenu, Elapse 2000] menuInit) = []"
  "selections (menuRun sampleMenu
      [Render True onPen, Elapse 400, Render True onEraser, Elapse 799] menuInit) = []"
  "selections (menuRun sampleMenu
      [Render True onPen, Elapse 400, Render True onEraser, Elapse 800] menuInit)
     = [(1200, SelectTool ''eraser'')]"
  "selections (menuRun sampleMenu
      [Render True onPen, Elapse 800, Render True offMenu, Elapse 100,
       Render True onPen, Elapse 800] menuInit)
     = [(800, SelectTool ''pen''), (1700, SelectTool ''pen'')]"
  by (simp_all add: sampleMenu_def onPen_def onEraser_def offMenu_def menuInit_def hoverEffect_def
        inside_def setHoverTimer_def clearHoverTimer_def clearTimeout_def elapse_def fire_def)

text \<open>
  C1. Closing the menu does not cancel the pending timeout: the effect returns at once
  when \<open>isOpen\<close> is false, before it reaches a \<^verbatim>\<open>clearTimeout\<close>, and it has no cleanup.
  With the cursor on the pen button at 0 ms and the menu closed at 400 ms, the pen is
  selected at 800 ms all the same. The same happens when the cursor is lost (no hand,
  \<open>cursorPos\<close> null) at 400 ms.
\<close>

theorem stale_selection_after_close:
  "selections (menuRun sampleMenu
      [Render True onPen, Elapse 400, Render False None, Elapse 400] menuInit)
     = [(800, SelectTool ''pen'')]
   \<and> selections (menuRun sampleMenu
      [Render True onPen, Elapse 400, Render True None, Elapse 400] menuInit)
     = [(800, SelectTool ''pen'')]"
  by (simp add: sampleMenu_def onPen_def menuInit_def hoverEffect_def inside_def
        setHoverTimer_def clearHoverTimer_def clearTimeout_def elapse_def fire_def)

section \<open>Rounding\<close>

text \<open>
  Where the 53 bits of a number lie is known from its size: for \<open>r\<close> between 2 to the
  52 - k and 2 to the 53 - k the last bit weighs 2 to the -k. This evaluates \<open>binary64\<close>
  in one step.
\<close>

lemma ulpOf_binade:
  "k \<le> n \<Longrightarrow> 2 ^ 52 \<le> r * 2 ^ k \<Longrightarrow> r * 2 ^ k < 2 ^ 53 \<Longrightarrow> ulpOf n r = 1 / 2 ^ k"
proof (induction k arbitrary: n r)
  case 0
  then show ?case by (simp add: ulpOf.simps)
next
  case (Suc k)
  have p: "(0::real) < 2 ^ Suc k" by simp
  have "(0::real) < 2 ^ 52" by simp
  from this Suc.prems(2) have "0 < r * 2 ^ Suc k" by (rule less_le_trans)
  from this p have pos: "0 < r" by (rule zero_less_mult_pos2)
  have "(1::real) \<le> 2 ^ k" by simp
  with pos have "r * 2 * 1 \<le> r * 2 * 2 ^ k" by (intro mult_left_mono) simp_all
  also have "\<dots> = r * 2 ^ Suc k" by simp
  also note Suc.prems(3)
  finally have small: "r < 2 ^ 52" by simp
  from Suc.prems(1) have n: "n \<noteq> 0" "k \<le> n - 1" by simp_all
  have "ulpOf (n - 1) (2 * r) = 1 / 2 ^ k"
    using Suc.IH [OF n(2), of "2 * r"] Suc.prems(2,3) by (simp add: mult.assoc mult.left_commute)
  with small n(1) show ?case by (subst ulpOf.simps) simp
qed

lemma binary64_binade:
  assumes "k \<le> 1074" and "2 ^ 52 \<le> \<bar>r\<bar> * 2 ^ k" and "\<bar>r\<bar> * 2 ^ k < 2 ^ 53"
  shows "binary64 r = of_int (roundEven (r * 2 ^ k)) / 2 ^ k"
proof -
  from assms(2) have nz: "r \<noteq> 0" by auto
  from assms(1) have "k \<le> 2200" by simp
  from ulpOf_binade [OF this assms(2,3)] have u: "ulpOf 2200 \<bar>r\<bar> = 1 / 2 ^ k" .
  have "(2::real) ^ k \<le> 2 ^ 1074"
    using assms(1) by (intro power_increasing) simp_all
  then have "(1::real) / 2 ^ 1074 \<le> 1 / 2 ^ k"
    by (intro frac_le) (simp_all only: zero_less_power zero_less_numeral zero_le_one order_refl)
  then have "max (1 / 2 ^ k) (1 / 2 ^ 1074 :: real) = 1 / 2 ^ k" by (rule max_absorb1)
  with nz u have "binary64 r = of_int (roundEven (r / (1 / 2 ^ k))) * (1 / 2 ^ k)"
    by (simp only: binary64_def Let_def if_False)
  then show ?thesis by simp
qed

lemmas binades =
  binary64_binade [of 53] binary64_binade [of 54] binary64_binade [of 55]
  binary64_binade [of 56] binary64_binade [of 57] binary64_binade [of 58]
  binary64_binade [of 59] binary64_binade [of 103]

text \<open>The literals 0.01 and 0.05 as doubles.\<close>

lemma binary64_literals:
  "binary64 0.01 = 5764607523034235 / 576460752303423488"
  "binary64 0.05 = 3602879701896397 / 72057594037927936"
  by (simp_all add: binary64_binade [of 59] binary64_binade [of 57] roundEven_def)

section \<open>Particle lifecycle\<close>

text \<open>
  The countdown from life 1.0, run in binary64: the life goes down in each of the first
  100 ticks, is positive after 1 to 99 of them, and after the 100th it is -217 / 2^58,
  about -7.5e-16.
\<close>

lemma countdown_checked:
  "countdown 99 (life64 0) (life64 (Suc 0)) = Some (- (217 / 288230376151711744))"
  by (simp add: life64.simps binary64_literals countdown.simps binades roundEven_def)

lemma countdown_sound:
  "countdown n (life64 j) (life64 (Suc j)) = Some v \<Longrightarrow>
     (\<forall>i. j \<le> i \<and> i \<le> j + n \<longrightarrow> life64 (Suc i) < life64 i)
     \<and> (\<forall>i. j < i \<and> i \<le> j + n \<longrightarrow> 0 < life64 i)
     \<and> life64 (Suc (j + n)) = v \<and> v \<le> 0"
proof (induction n arbitrary: j)
  case 0
  then have a: "life64 (Suc j) < life64 j" and b: "life64 (Suc j) = v" and c: "v \<le> 0"
    by (simp_all add: countdown.simps split: if_splits)
  have "life64 (Suc i) < life64 i" if "j \<le> i \<and> i \<le> j + 0" for i
  proof -
    from that have "i = j" by simp
    with a show ?thesis by simp
  qed
  with b c show ?case by simp
next
  case (Suc n)
  from Suc.prems have a: "life64 (Suc j) < life64 j" and b: "0 < life64 (Suc j)"
    and c: "countdown n (life64 (Suc j)) (life64 (Suc (Suc j))) = Some v"
    by (simp_all add: countdown.simps [of "Suc n"] life64.simps(2) [of "Suc j"] split: if_splits)
  from Suc.IH [OF c]
  have d: "\<forall>i. Suc j \<le> i \<and> i \<le> Suc j + n \<longrightarrow> life64 (Suc i) < life64 i"
    and e: "\<forall>i. Suc j < i \<and> i \<le> Suc j + n \<longrightarrow> 0 < life64 i"
    and f: "life64 (Suc (Suc j + n)) = v" and g: "v \<le> 0"
    by simp_all
  have "life64 (Suc i) < life64 i" if "j \<le> i \<and> i \<le> j + Suc n" for i
    using that a d by (cases "i = j") auto
  moreover have "0 < life64 i" if "j < i \<and> i \<le> j + Suc n" for i
    using that b e by (cases "i = Suc j") auto
  ultimately show ?case using f g by simp
qed

lemma life64_countdown:
  "i < 100 \<Longrightarrow> 0 < life64 i"
  "i < 100 \<Longrightarrow> life64 (Suc i) < life64 i"
  "life64 100 \<le> 0"
  "life64 100 = - (217 / 288230376151711744)"
proof -
  note s = countdown_sound [OF countdown_checked]
  show "0 < life64 i" if "i < 100" using that s by (cases "i = 0") (auto simp add: life64.simps)
  show "life64 (Suc i) < life64 i" if "i < 100" using that s by auto
  show "life64 100 = - (217 / 288230376151711744)" using s by simp
  then show "life64 100 \<le> 0" by simp
qed

lemma pa_life_tickParticle: "pa_life (tickParticle p) = binary64 (pa_life p - binary64 0.01)"
  by (simp add: tickParticle_def)

lemma pa_life_funpow:
  "pa_life p = life64 k \<Longrightarrow> pa_life ((tickParticle ^^ n) p) = life64 (k + n)"
  by (induction n) (simp_all add: pa_life_tickParticle life64.simps)

lemma tickParticles_single:
  "tickParticles [p] = (if 0 < pa_life (tickParticle p) then [tickParticle p] else [])"
  by (simp add: tickParticles_def)

lemma tickParticles_alive:
  assumes "pa_life p = 1" and "n < 100"
  shows "(tickParticles ^^ n) [p] = [(tickParticle ^^ n) p]"
  using assms(2)
proof (induction n)
  case 0
  then show ?case by simp
next
  case (Suc n)
  from assms(1) have "pa_life ((tickParticle ^^ Suc n) p) = life64 (Suc n)"
    using pa_life_funpow [of p 0 "Suc n"] by (simp add: life64.simps(1))
  with life64_countdown(1) [OF Suc.prems] have "0 < pa_life (tickParticle ((tickParticle ^^ n) p))"
    by simp
  with Suc show ?case by (simp add: tickParticles_single)
qed

lemma tickParticles_dead:
  assumes "pa_life p = 1"
  shows "(tickParticles ^^ 100) [p] = []"
proof -
  have "(tickParticles ^^ 100) [p] = tickParticles ((tickParticles ^^ 99) [p])"
    by (simp add: eval_nat_numeral)
  also have "\<dots> = tickParticles [(tickParticle ^^ 99) p]"
    using tickParticles_alive [OF assms, of 99] by simp
  also have "\<dots> = []"
  proof -
    have "life64 100 = binary64 (life64 99 - binary64 0.01)"
      using life64.simps(2) [of 99] by simp
    moreover have "pa_life ((tickParticle ^^ 99) p) = life64 99"
      using pa_life_funpow [of p 0 99] assms by (simp add: life64.simps(1))
    ultimately show ?thesis
      using life64_countdown(3) by (simp add: tickParticles_single pa_life_tickParticle)
  qed
  finally show ?thesis .
qed

text \<open>A tick removes particles and adds none: what is live is the tick of what was live.\<close>

lemma tickParticles_shrinks:
  "length (tickParticles ps) \<le> length ps"
  "set (tickParticles ps) \<subseteq> tickParticle ` set ps"
  by (auto simp add: tickParticles_def intro: le_trans [OF length_filter_le])

text \<open>
  Particles are spawned with life 1.0 only, so a live particle has the life of a
  spawned one after fewer than 100 ticks; \<open>m\<close> ticks later that is at least \<open>m\<close> ticks.
\<close>

lemma tickParticles_ages:
  assumes "\<forall>q \<in> set ps. \<exists>k. m \<le> k \<and> k < 100 \<and> pa_life q = life64 k"
  shows "\<forall>q \<in> set (tickParticles ps). \<exists>k. Suc m \<le> k \<and> k < 100 \<and> pa_life q = life64 k"
proof
  fix q assume q: "q \<in> set (tickParticles ps)"
  then have pos: "0 < pa_life q"
    by (cases "ps = []") (auto simp add: tickParticles_def)
  from q tickParticles_shrinks(2) obtain q0 where q0: "q0 \<in> set ps" and t: "q = tickParticle q0"
    by blast
  from assms q0 obtain k where k: "m \<le> k" "k < 100" "pa_life q0 = life64 k" by blast
  from t k(3) have l: "pa_life q = life64 (Suc k)" by (simp add: pa_life_tickParticle life64.simps)
  have "Suc k \<noteq> 100" using pos l life64_countdown(3) by auto
  with k(1,2) l show "\<exists>k. Suc m \<le> k \<and> k < 100 \<and> pa_life q = life64 k"
    by (intro exI [of _ "Suc k"]) simp
qed

lemma tickParticles_ages_funpow:
  assumes "\<forall>q \<in> set ps. \<exists>k. k < 100 \<and> pa_life q = life64 k"
  shows "\<forall>q \<in> set ((tickParticles ^^ m) ps). \<exists>k. m \<le> k \<and> k < 100 \<and> pa_life q = life64 k"
proof (induction m)
  case 0
  from assms show ?case by simp
next
  case (Suc m)
  from tickParticles_ages [OF Suc] show ?case by simp
qed

lemma tickParticles_empties:
  assumes "\<forall>q \<in> set ps. \<exists>k. k < 100 \<and> pa_life q = life64 k"
  shows "(tickParticles ^^ 100) ps = []"
proof (rule ccontr)
  assume "(tickParticles ^^ 100) ps \<noteq> []"
  then obtain q where "q \<in> set ((tickParticles ^^ 100) ps)"
    by (cases "(tickParticles ^^ 100) ps") auto
  with tickParticles_ages_funpow [OF assms, of 100] show False by auto
qed


text \<open>
  C9. A tick moves a particle by its velocity of before the tick, takes 0.01 off its
  life and adds 0.05 to \<open>vy\<close>, each in binary64, and \<open>renderCanvas\<close> runs one tick. A
  particle of life 1.0 is live after each of the ticks 0 to 99, with a positive life that
  is smaller after every tick; after exactly 100 ticks its life is at most 0 and it is
  gone. A tick never makes the list longer, and every particle live after it is the tick
  of one live before. With the particles all spawned at life 1.0 and less than 100 ticks
  old, the list is empty after 100 ticks.
\<close>

theorem particle_lifecycle:
  "pa_life (tickParticle p) = binary64 (pa_life p - binary64 0.01)
   \<and> pa_vy (tickParticle p) = binary64 (pa_vy p + binary64 0.05)
   \<and> pa_x (tickParticle p) = binary64 (pa_x p + pa_vx p)
   \<and> pa_y (tickParticle p) = binary64 (pa_y p + pa_vy p)
   \<and> particlesRef (renderCanvas True s) = tickParticles (particlesRef s)
   \<and> (pa_life p = 1 \<and> n < 100 \<longrightarrow>
        (tickParticles ^^ n) [p] = [(tickParticle ^^ n) p]
        \<and> 0 < pa_life ((tickParticle ^^ n) p)
        \<and> pa_life ((tickParticle ^^ Suc n) p) < pa_life ((tickParticle ^^ n) p))
   \<and> (pa_life p = 1 \<longrightarrow>
        pa_life ((tickParticle ^^ 100) p) \<le> 0 \<and> (tickParticles ^^ 100) [p] = [])
   \<and> length (tickParticles ps) \<le> length ps
   \<and> set (tickParticles ps) \<subseteq> tickParticle ` set ps
   \<and> ((\<forall>q \<in> set ps. \<exists>k<100. pa_life q = life64 k) \<longrightarrow> (tickParticles ^^ 100) ps = [])"
proof (intro conjI impI)
  assume a: "pa_life p = 1 \<and> n < 100"
  then have l: "pa_life ((tickParticle ^^ m) p) = life64 m" for m
    using pa_life_funpow [of p 0 m] by (simp add: life64.simps(1))
  from a show "(tickParticles ^^ n) [p] = [(tickParticle ^^ n) p]"
    by (simp add: tickParticles_alive)
  from a show "0 < pa_life ((tickParticle ^^ n) p)"
    by (simp only: l life64_countdown(1))
  from a show "pa_life ((tickParticle ^^ Suc n) p) < pa_life ((tickParticle ^^ n) p)"
    by (simp only: l life64_countdown(2))
next
  assume a: "pa_life p = 1"
  then show "pa_life ((tickParticle ^^ 100) p) \<le> 0"
    using pa_life_funpow [of p 0 100] life64_countdown(3) by (simp add: life64.simps(1))
  from a show "(tickParticles ^^ 100) [p] = []" by (rule tickParticles_dead)
next
  assume "\<forall>q \<in> set ps. \<exists>k<100. pa_life q = life64 k"
  then show "(tickParticles ^^ 100) ps = []" by (rule tickParticles_empties)
next
  show "length (tickParticles ps) \<le> length ps" by (rule tickParticles_shrinks)
  show "set (tickParticles ps) \<subseteq> tickParticle ` set ps" by (rule tickParticles_shrinks)
qed (simp_all add: tickParticle_def renderCanvas_def)

text \<open>
  The flake after 99 ticks is live; after 100 ticks its life is -217 / 2^58 and it is
  gone, and so is the list of a fresh flake and one a tick old.
\<close>

theorem particle_lifecycle_witness:
  "pa_life flake = 1 \<and> (99::nat) < 100
   \<and> (tickParticles ^^ 99) [flake] = [(tickParticle ^^ 99) flake]
   \<and> 0 < pa_life ((tickParticle ^^ 99) flake)
   \<and> pa_life ((tickParticle ^^ 100) flake) < pa_life ((tickParticle ^^ 99) flake)
   \<and> pa_life ((tickParticle ^^ 100) flake) = - (217 / 288230376151711744)
   \<and> (tickParticles ^^ 100) [flake] = []
   \<and> (\<exists>k<100. pa_life flake = life64 k) \<and> (\<exists>k<100. pa_life (tickParticle flake) = life64 k)
   \<and> (tickParticles ^^ 100) [flake, tickParticle flake] = []"
proof -
  have a: "pa_life flake = 1" by (simp add: flake_def)
  have b: "(99::nat) < 100" by simp
  have c: "\<exists>k<100. pa_life flake = life64 k"
    using a by (intro exI [of _ 0]) (simp add: life64.simps(1))
  have d: "\<exists>k<100. pa_life (tickParticle flake) = life64 k"
    using a by (intro exI [of _ 1]) (simp add: pa_life_tickParticle life64.simps)
  from c d have e: "\<forall>q \<in> set [flake, tickParticle flake]. \<exists>k<100. pa_life q = life64 k" by simp
  have v: "pa_life ((tickParticle ^^ 100) flake) = - (217 / 288230376151711744)"
    using pa_life_funpow [of flake 0 100] a life64_countdown(4) by (simp add: life64.simps(1))
  note th = particle_lifecycle [where p = flake]
  from th [where n = 99] a b
  have 1: "(tickParticles ^^ 99) [flake] = [(tickParticle ^^ 99) flake]
        \<and> 0 < pa_life ((tickParticle ^^ 99) flake)
        \<and> pa_life ((tickParticle ^^ Suc 99) flake) < pa_life ((tickParticle ^^ 99) flake)"
    by blast
  have "Suc 99 = 100" by simp
  with 1 have 2: "pa_life ((tickParticle ^^ 100) flake) < pa_life ((tickParticle ^^ 99) flake)"
    by (simp only:)
  from th a have 3: "(tickParticles ^^ 100) [flake] = []" by blast
  from th [where ps = "[flake, tickParticle flake]"] e
  have 4: "(tickParticles ^^ 100) [flake, tickParticle flake] = []" by blast
  from a b 1 2 v 3 c d 4 show ?thesis by blast
qed

section \<open>Screen space and world space\<close>

lemma conversions_real:
  assumes "scale T \<noteq> 0"
  shows "worldToScreen T (screenToWorld T p) = p" and "screenToWorld T (worldToScreen T p) = p"
  using assms by (simp_all add: worldToScreen_def screenToWorld_def)

lemma position_newParticle: "position (newParticle T rnd k p c z) = worldToScreen T p"
  by (simp add: newParticle_def position_def worldToScreen_def)

text \<open>
  C10, as far as it holds. Read in exact arithmetic, the two conversions undo each other
  under every transform with a scale other than 0, so under the transform of every state
  the component can reach, and the particle a dissolve spawns from a pinch point recorded
  under the same transform sits at the midpoint of thumb tip and index tip where it was
  drawn. In the binary64 arithmetic of the program they undo each other exactly under the
  initial transform (scale 1, offset 0) for every point with binary64 coordinates.
\<close>

theorem conversions_inverse:
  "(scale T \<noteq> 0 \<longrightarrow>
      worldToScreen T (screenToWorld T p) = p \<and> screenToWorld T (worldToScreen T p) = p
      \<and> position (newParticle T rnd k (worldPoint T hand width height) c z)
          = midPoint (tip hand 4 width height) (tip hand 8 width height))
   \<and> (run events initialState = Inr s \<longrightarrow>
      scale (transformRef s) \<noteq> 0
      \<and> worldToScreen (transformRef s) (screenToWorld (transformRef s) p) = p
      \<and> screenToWorld (transformRef s) (worldToScreen (transformRef s) p) = p)
   \<and> (binary64 (pt_x p) = pt_x p \<and> binary64 (pt_y p) = pt_y p \<longrightarrow>
      worldToScreen64 (transformRef initialState) (screenToWorld64 (transformRef initialState) p) = p
      \<and> screenToWorld64 (transformRef initialState) (worldToScreen64 (transformRef initialState) p) = p)"
proof (intro conjI impI)
  assume a: "scale T \<noteq> 0"
  then show "worldToScreen T (screenToWorld T p) = p" by (rule conversions_real)
  from a show "screenToWorld T (worldToScreen T p) = p" by (rule conversions_real)
  from a show "position (newParticle T rnd k (worldPoint T hand width height) c z)
          = midPoint (tip hand 4 width height) (tip hand 8 width height)"
    by (simp add: position_newParticle worldPoint_def conversions_real)
next
  assume "run events initialState = Inr s"
  from run_scale [OF this] have "1/2 \<le> scale (transformRef s)"
    by (simp add: initialState_def)
  then show nz: "scale (transformRef s) \<noteq> 0" by simp
  then show "worldToScreen (transformRef s) (screenToWorld (transformRef s) p) = p"
    by (rule conversions_real)
  from nz show "screenToWorld (transformRef s) (worldToScreen (transformRef s) p) = p"
    by (rule conversions_real)
next
  assume a: "binary64 (pt_x p) = pt_x p \<and> binary64 (pt_y p) = pt_y p"
  then show "worldToScreen64 (transformRef initialState) (screenToWorld64 (transformRef initialState) p) = p"
    by (simp add: worldToScreen64_def screenToWorld64_def initialState_def)
  from a show "screenToWorld64 (transformRef initialState) (worldToScreen64 (transformRef initialState) p) = p"
    by (simp add: worldToScreen64_def screenToWorld64_def initialState_def)
qed

text \<open>The sample zoom frames, from the initial state, end at scale 3.\<close>

lemma tripled_reachable:
  "run [zoomFrame 100, zoomFrame 1000] initialState =
     Inr (initialState\<lparr>transformRef := tripled, prevPinchDistanceRef := Some 1000\<rparr>)"
  by (simp add: step_zoomFrame initialState_def tickParticles_def tripled_def)

theorem conversions_inverse_witness:
  "scale tripled \<noteq> 0
   \<and> worldToScreen tripled (screenToWorld tripled nineTenths) = nineTenths
   \<and> screenToWorld tripled (worldToScreen tripled nineTenths) = nineTenths
   \<and> position (newParticle tripled zeroDraws 0 (worldPoint tripled (pinchHandAt 0.5) 1000 1000) ''#00FFFF'' 6)
       = \<lparr>pt_x = 510, pt_y = 500\<rparr>
   \<and> run [zoomFrame 100, zoomFrame 1000] initialState =
       Inr (initialState\<lparr>transformRef := tripled, prevPinchDistanceRef := Some 1000\<rparr>)
   \<and> binary64 (pt_x nineTenths) = pt_x nineTenths \<and> binary64 (pt_y nineTenths) = pt_y nineTenths
   \<and> worldToScreen64 (transformRef initialState) (screenToWorld64 (transformRef initialState) nineTenths)
       = nineTenths
   \<and> screenToWorld64 (transformRef initialState) (worldToScreen64 (transformRef initialState) nineTenths)
       = nineTenths"
proof -
  have a: "scale tripled \<noteq> 0" by (simp add: tripled_def)
  have b: "binary64 (pt_x nineTenths) = pt_x nineTenths \<and> binary64 (pt_y nineTenths) = pt_y nineTenths"
    by (simp add: nineTenths_def binary64_binade [of 53] roundEven_def)
  have m: "midPoint (tip (pinchHandAt 0.5) 4 1000 1000) (tip (pinchHandAt 0.5) 8 1000 1000)
             = \<lparr>pt_x = 510, pt_y = 500\<rparr>"
    by (simp add: midPoint_def pinchHandAt_tips)
  note th = conversions_inverse [where p = nineTenths]
  from a th [where T = tripled and rnd = zeroDraws and k = 0 and hand = "pinchHandAt 0.5"
      and width = 1000 and height = 1000 and c = "''#00FFFF''" and z = 6]
  have 1: "worldToScreen tripled (screenToWorld tripled nineTenths) = nineTenths
      \<and> screenToWorld tripled (worldToScreen tripled nineTenths) = nineTenths
      \<and> position (newParticle tripled zeroDraws 0 (worldPoint tripled (pinchHandAt 0.5) 1000 1000) ''#00FFFF'' 6)
          = \<lparr>pt_x = 510, pt_y = 500\<rparr>"
    by (simp only: m) blast
  from b th
  have 2: "worldToScreen64 (transformRef initialState) (screenToWorld64 (transformRef initialState) nineTenths)
       = nineTenths
   \<and> screenToWorld64 (transformRef initialState) (worldToScreen64 (transformRef initialState) nineTenths)
       = nineTenths"
    by blast
  from a 1 tripled_reachable b 2 show ?thesis by blast
qed

text \<open>
  In binary64 the round trip is not exact under every reachable transform. At scale 3,
  which the sample zoom frames reach, the point (0.9, 0.9) goes to world space and back
  as 0.8999999999999999 (one unit in the last place below), and the point (0.1, 0.1)
  goes to screen space and back as 0.10000000000000002.
\<close>

theorem conversions_binary64_counterexample:
  "run [zoomFrame 100, zoomFrame 1000] initialState =
     Inr (initialState\<lparr>transformRef := tripled, prevPinchDistanceRef := Some 1000\<rparr>)
   \<and> binary64 (pt_x nineTenths) = pt_x nineTenths \<and> binary64 (pt_y nineTenths) = pt_y nineTenths
   \<and> binary64 (pt_x oneTenth) = pt_x oneTenth \<and> binary64 (pt_y oneTenth) = pt_y oneTenth
   \<and> worldToScreen64 tripled (screenToWorld64 tripled nineTenths)
       = \<lparr>pt_x = 2026619832316723 / 2251799813685248, pt_y = 2026619832316723 / 2251799813685248\<rparr>
   \<and> worldToScreen64 tripled (screenToWorld64 tripled nineTenths) \<noteq> nineTenths
   \<and> screenToWorld64 tripled (worldToScreen64 tripled oneTenth)
       = \<lparr>pt_x = 7205759403792795 / 72057594037927936, pt_y = 7205759403792795 / 72057594037927936\<rparr>
   \<and> screenToWorld64 tripled (worldToScreen64 tripled oneTenth) \<noteq> oneTenth"
proof -
  have a: "worldToScreen64 tripled (screenToWorld64 tripled nineTenths)
       = \<lparr>pt_x = 2026619832316723 / 2251799813685248, pt_y = 2026619832316723 / 2251799813685248\<rparr>"
    by (simp add: worldToScreen64_def screenToWorld64_def tripled_def nineTenths_def
          binary64_binade [of 53] binary64_binade [of 54] roundEven_def)
  have b: "screenToWorld64 tripled (worldToScreen64 tripled oneTenth)
       = \<lparr>pt_x = 7205759403792795 / 72057594037927936, pt_y = 7205759403792795 / 72057594037927936\<rparr>"
    by (simp add: worldToScreen64_def screenToWorld64_def tripled_def oneTenth_def
          binary64_binade [of 54] binary64_binade [of 56] roundEven_def)
  have c: "binary64 (pt_x nineTenths) = pt_x nineTenths \<and> binary64 (pt_y nineTenths) = pt_y nineTenths"
    by (simp add: nineTenths_def binary64_binade [of 53] roundEven_def)
  have d: "binary64 (pt_x oneTenth) = pt_x oneTenth \<and> binary64 (pt_y oneTenth) = pt_y oneTenth"
    by (simp add: oneTenth_def binary64_binade [of 56] roundEven_def)
  have e: "\<lparr>pt_x = 2026619832316723 / 2251799813685248, pt_y = 2026619832316723 / 2251799813685248\<rparr>
             \<noteq> nineTenths"
    by (simp add: nineTenths_def)
  have f: "\<lparr>pt_x = 7205759403792795 / 72057594037927936, pt_y = 7205759403792795 / 72057594037927936\<rparr>
             \<noteq> oneTenth"
    by (simp add: oneTenth_def)
  from tripled_reachable a b c d e f show ?thesis by (simp only: simp_thms)
qed

end
